theory Spec2Isabelle
  imports Complex_Main "HOL-Library.Word"
begin

unbundle bit_operations_syntax

section \<open>The lightsd example client \<^verbatim>\<open>examples/lightsc.py\<close>\<close>

text \<open>
  The client is one Python class, \<^verbatim>\<open>LightsClient\<close>, that talks JSON-RPC 2.0 to lightsd
  over one TCP socket. This theory embeds the class and the part of its environment the
  class observes: the values Python handles, the text the socket delivers, the standard
  library calls \<^verbatim>\<open>json.loads\<close>, \<^verbatim>\<open>bytes.decode\<close> and \<^verbatim>\<open>uuid.uuid4\<close>.
\<close>

subsection \<open>Python values\<close>

text \<open>
  Every value the client handles is what \<^verbatim>\<open>json.loads\<close> can return or what the caller
  passes as a parameter: \<^verbatim>\<open>None\<close>, a bool, a number, a \<^verbatim>\<open>str\<close>, a list or a dict.
  A dict keeps its keys in insertion order, so it is an association list. A \<^verbatim>\<open>str\<close> is
  kept as the bytes of its UTF-8 encoding. An \<^verbatim>\<open>int\<close> is unbounded; a \<^verbatim>\<open>float\<close> is an
  IEEE 754 binary64 value.
\<close>

subsection \<open>\<^verbatim>\<open>float\<close>\<close>

text \<open>
  \<open>Fin x\<close> is the finite float whose value is \<open>x\<close>, with \<open>Fin 0\<close> the positive zero;
  \<open>NegZero\<close> is \<^verbatim>\<open>-0.0\<close>. \<open>round_double\<close> rounds a real to the nearest float, ties to
  the even significand: 53 significant bits, exponents down to the subnormal range, and
  an infinity from \<open>2 ^ 1024\<close> on.
\<close>

datatype float = Fin real | NegZero | PosInf | NegInf | NaN

text \<open>The number of binary digits of a positive integer.\<close>

function bits :: "int \<Rightarrow> nat" where
  "bits n = (if n \<le> 0 then 0 else Suc (bits (n div 2)))"
  by pat_completeness auto
termination
  by (relation "measure nat") auto

declare bits.simps [simp del]

text \<open>\<open>ilog2 x\<close> is the \<open>e\<close> with \<open>2 ^ e \<le> x < 2 ^ (e + 1)\<close>, for a positive \<open>x\<close>.\<close>

definition ilog2 :: "real \<Rightarrow> int" where
  "ilog2 x =
     (if 1 \<le> x then int (bits \<lfloor>x\<rfloor>) - 1
      else - int (bits (\<lceil>1 / x\<rceil> - 1)))"

definition pow2 :: "int \<Rightarrow> real" where
  "pow2 k = (if 0 \<le> k then 2 ^ nat k else 1 / 2 ^ nat (- k))"

definition round_half_even :: "real \<Rightarrow> int" where
  "round_half_even q =
     (let f = \<lfloor>q\<rfloor>
      in if q - of_int f < 1 / 2 then f
         else if 1 / 2 < q - of_int f then f + 1
         else if even f then f else f + 1)"

definition round_pos :: "real \<Rightarrow> real" where
  "round_pos x =
     (let ulp = pow2 (max (ilog2 x) (- 1022) - 52)
      in of_int (round_half_even (x / ulp)) * ulp)"

definition round_double :: "real \<Rightarrow> float" where
  "round_double x =
     (if x = 0 then Fin 0
      else if 0 < x then (if 2 ^ 1024 \<le> round_pos x then PosInf else Fin (round_pos x))
      else if 2 ^ 1024 \<le> round_pos (- x) then NegInf
      else if round_pos (- x) = 0 then NegZero
      else Fin (- round_pos (- x)))"

text \<open>
  Addition of floats: the exact sum, rounded. The sum of two zeros is \<^verbatim>\<open>-0.0\<close> only when
  both are; an overflow gives an infinity and raises nothing.
\<close>

fun float_add :: "float \<Rightarrow> float \<Rightarrow> float" where
  "float_add NaN _ = NaN"
| "float_add _ NaN = NaN"
| "float_add PosInf NegInf = NaN"
| "float_add NegInf PosInf = NaN"
| "float_add PosInf _ = PosInf"
| "float_add _ PosInf = PosInf"
| "float_add NegInf _ = NegInf"
| "float_add _ NegInf = NegInf"
| "float_add NegZero NegZero = NegZero"
| "float_add NegZero (Fin y) = Fin y"
| "float_add (Fin x) NegZero = Fin x"
| "float_add (Fin x) (Fin y) = round_double (x + y)"

text \<open>\<^verbatim>\<open><\<close> on floats: false whenever a NaN is involved, the two zeros equal.\<close>

fun float_lt :: "float \<Rightarrow> float \<Rightarrow> bool" where
  "float_lt NaN _ = False"
| "float_lt _ NaN = False"
| "float_lt PosInf _ = False"
| "float_lt _ NegInf = False"
| "float_lt _ PosInf = True"
| "float_lt NegInf _ = True"
| "float_lt NegZero NegZero = False"
| "float_lt NegZero (Fin y) = (0 < y)"
| "float_lt (Fin x) NegZero = (x < 0)"
| "float_lt (Fin x) (Fin y) = (x < y)"

subsection \<open>Numbers\<close>

text \<open>
  A Python number is an \<^verbatim>\<open>int\<close> or a \<^verbatim>\<open>float\<close>. \<^verbatim>\<open>float(i)\<close> rounds the \<^verbatim>\<open>int\<close> and
  raises \<^verbatim>\<open>OverflowError\<close> when the result is out of range; \<^verbatim>\<open>+\<close> on an \<^verbatim>\<open>int\<close> and a
  \<^verbatim>\<open>float\<close> converts the \<^verbatim>\<open>int\<close> first; \<^verbatim>\<open><\<close> on an \<^verbatim>\<open>int\<close> and a \<^verbatim>\<open>float\<close>
  compares the exact values. \<^verbatim>\<open>min(a, b)\<close> is \<^verbatim>\<open>b\<close> when \<^verbatim>\<open>b < a\<close> and \<^verbatim>\<open>a\<close> otherwise,
  \<^verbatim>\<open>max(a, b)\<close> is \<^verbatim>\<open>b\<close> when \<^verbatim>\<open>b > a\<close> and \<^verbatim>\<open>a\<close> otherwise.
\<close>

datatype pynum = PInt int | PFloat float

datatype exn =
    OSError
  | UnicodeDecodeError
  | KeyError string
  | TypeError
  | ValueError
  | OverflowError

definition float_of_int :: "int \<Rightarrow> exn + float" where
  "float_of_int i =
     (case round_double (of_int i) of
        PosInf \<Rightarrow> Inl OverflowError
      | NegInf \<Rightarrow> Inl OverflowError
      | f \<Rightarrow> Inr f)"

definition num_add :: "pynum \<Rightarrow> pynum \<Rightarrow> exn + pynum" where
  "num_add a b =
     (case (a, b) of
        (PInt i, PInt j) \<Rightarrow> Inr (PInt (i + j))
      | (PInt i, PFloat g) \<Rightarrow>
          (case float_of_int i of Inl e \<Rightarrow> Inl e | Inr f \<Rightarrow> Inr (PFloat (float_add f g)))
      | (PFloat f, PInt j) \<Rightarrow>
          (case float_of_int j of Inl e \<Rightarrow> Inl e | Inr g \<Rightarrow> Inr (PFloat (float_add f g)))
      | (PFloat f, PFloat g) \<Rightarrow> Inr (PFloat (float_add f g)))"

definition num_lt :: "pynum \<Rightarrow> pynum \<Rightarrow> bool" where
  "num_lt a b =
     (case (a, b) of
        (PInt i, PInt j) \<Rightarrow> i < j
      | (PInt i, PFloat g) \<Rightarrow> float_lt (Fin (of_int i)) g
      | (PFloat f, PInt j) \<Rightarrow> float_lt f (Fin (of_int j))
      | (PFloat f, PFloat g) \<Rightarrow> float_lt f g)"

definition py_min :: "pynum \<Rightarrow> pynum \<Rightarrow> pynum" where
  "py_min a b = (if num_lt b a then b else a)"

definition py_max :: "pynum \<Rightarrow> pynum \<Rightarrow> pynum" where
  "py_max a b = (if num_lt a b then b else a)"

subsection \<open>Values\<close>

datatype json =
    JNull
  | JBool bool
  | JInt int
  | JFloat float
  | JStr string
  | JArr "json list"
  | JObj "(string \<times> json) list"

text \<open>
  \<open>exn\<close> above lists the exceptions the class can let escape; it defines none of its
  own. A bool counts as the \<^verbatim>\<open>int\<close> 0 or 1 in arithmetic.
\<close>

definition as_num :: "json \<Rightarrow> pynum option" where
  "as_num v =
     (case v of
        JInt i \<Rightarrow> Some (PInt i)
      | JFloat f \<Rightarrow> Some (PFloat f)
      | JBool t \<Rightarrow> Some (PInt (if t then 1 else 0))
      | _ \<Rightarrow> None)"

definition num_json :: "pynum \<Rightarrow> json" where
  "num_json n = (case n of PInt i \<Rightarrow> JInt i | PFloat f \<Rightarrow> JFloat f)"

subsection \<open>\<^verbatim>\<open>bytes.decode("utf-8")\<close>\<close>

text \<open>
  The bytes of a \<^verbatim>\<open>str\<close> are kept as they are, so decoding is the identity where it
  succeeds. It raises \<^verbatim>\<open>UnicodeDecodeError\<close> on a sequence that is not well-formed UTF-8.
\<close>

definition cont_byte :: "nat \<Rightarrow> bool" where
  "cont_byte b = (128 \<le> b \<and> b \<le> 191)"

fun utf8_ok :: "nat list \<Rightarrow> bool" where
  "utf8_ok [] = True"
| "utf8_ok (b # bs) =
     (if b < 128 then utf8_ok bs
      else if 194 \<le> b \<and> b \<le> 223 then
        (case bs of
           c1 # r \<Rightarrow> cont_byte c1 \<and> utf8_ok r
         | _ \<Rightarrow> False)
      else if 224 \<le> b \<and> b \<le> 239 then
        (case bs of
           c1 # c2 # r \<Rightarrow>
             cont_byte c1 \<and> (b = 224 \<longrightarrow> 160 \<le> c1) \<and> (b = 237 \<longrightarrow> c1 \<le> 159)
             \<and> cont_byte c2 \<and> utf8_ok r
         | _ \<Rightarrow> False)
      else if 240 \<le> b \<and> b \<le> 244 then
        (case bs of
           c1 # c2 # c3 # r \<Rightarrow>
             cont_byte c1 \<and> (b = 240 \<longrightarrow> 144 \<le> c1) \<and> (b = 244 \<longrightarrow> c1 \<le> 143)
             \<and> cont_byte c2 \<and> cont_byte c3 \<and> utf8_ok r
         | _ \<Rightarrow> False)
      else False)"

definition decode_utf8 :: "string \<Rightarrow> exn + string" where
  "decode_utf8 bs = (if utf8_ok (map of_char bs) then Inr bs else Inl UnicodeDecodeError)"

subsection \<open>\<^verbatim>\<open>json.loads\<close>\<close>

text \<open>
  A reader for the JSON texts of RFC 8259 as \<^verbatim>\<open>json.loads\<close> reads them with its default
  arguments: white space between tokens, a control character inside a string is an error,
  a repeated key keeps its first position and its last value, anything after the top-level
  value is an error. \<^verbatim>\<open>None\<close> stands for \<^verbatim>\<open>JSONDecodeError\<close>. Outside the subset read
  here, and rejected: the escape \<^verbatim>\<open>\u\<close> and Python's extensions \<^verbatim>\<open>NaN\<close> and \<^verbatim>\<open>Infinity\<close>.
\<close>

datatype token =
    TLBrace | TRBrace | TLBrack | TRBrack | TColon | TComma
  | TStr string | TInt int | TFloat float | TTrue | TFalse | TNull

definition is_ws :: "char \<Rightarrow> bool" where
  "is_ws c = (c = CHR '' '' \<or> c = CHR 0x09 \<or> c = CHR 0x0A \<or> c = CHR 0x0D)"

definition is_digit :: "char \<Rightarrow> bool" where
  "is_digit c = (48 \<le> (of_char c :: nat) \<and> (of_char c :: nat) \<le> 57)"

definition is_alpha :: "char \<Rightarrow> bool" where
  "is_alpha c = (97 \<le> (of_char c :: nat) \<and> (of_char c :: nat) \<le> 122)"

definition is_num_char :: "char \<Rightarrow> bool" where
  "is_num_char c =
     (is_digit c \<or> c = CHR ''-'' \<or> c = CHR ''+'' \<or> c = CHR ''.'' \<or> c = CHR ''e'' \<or> c = CHR ''E'')"

definition digits_val :: "string \<Rightarrow> int" where
  "digits_val ds = foldl (\<lambda>a c. 10 * a + (of_char c - 48)) 0 ds"

text \<open>
  The number grammar \<^verbatim>\<open>-?(0|[1-9]\d*)(\.\d+)?([eE][-+]?\d+)?\<close>, on a whole lexeme. A
  number with neither fraction nor exponent is an \<^verbatim>\<open>int\<close>; any other is the \<^verbatim>\<open>float\<close>
  nearest to its decimal value.
\<close>

definition exponent :: "string \<Rightarrow> int option" where
  "exponent s =
     (case s of
        [] \<Rightarrow> Some 0
      | c # r \<Rightarrow>
          if c = CHR ''e'' \<or> c = CHR ''E'' then
            (let neg = (case r of d # _ \<Rightarrow> d = CHR ''-'' | [] \<Rightarrow> False);
                 ds = (case r of d # r' \<Rightarrow> if d = CHR ''-'' \<or> d = CHR ''+'' then r' else r
                       | [] \<Rightarrow> [])
             in if ds = [] \<or> \<not> list_all is_digit ds then None
                else Some (if neg then - digits_val ds else digits_val ds))
          else None)"

definition number :: "string \<Rightarrow> token option" where
  "number s =
     (let neg = (case s of c # _ \<Rightarrow> c = CHR ''-'' | [] \<Rightarrow> False);
          s1 = (if neg then tl s else s);
          ip = takeWhile is_digit s1;
          s2 = dropWhile is_digit s1;
          dot = (case s2 of c # _ \<Rightarrow> c = CHR ''.'' | [] \<Rightarrow> False);
          fp = (if dot then takeWhile is_digit (tl s2) else []);
          s3 = (if dot then dropWhile is_digit (tl s2) else s2)
      in if ip = [] \<or> (length ip > 1 \<and> hd ip = CHR ''0'') \<or> (dot \<and> fp = []) then None
         else if \<not> dot \<and> s3 = [] then
           Some (TInt (if neg then - digits_val ip else digits_val ip))
         else
           (case exponent s3 of
              None \<Rightarrow> None
            | Some e \<Rightarrow>
                (let m = of_int (digits_val ip) + of_int (digits_val fp) / 10 ^ length fp;
                     v = (if 0 \<le> e then m * 10 ^ nat e else m / 10 ^ nat (- e))
                 in Some (TFloat (if neg then (if v = 0 then NegZero else round_double (- v))
                                  else round_double v)))))"

definition word_token :: "string \<Rightarrow> token option" where
  "word_token w =
     (if w = ''true'' then Some TTrue
      else if w = ''false'' then Some TFalse
      else if w = ''null'' then Some TNull
      else None)"

definition unescape :: "char \<Rightarrow> char option" where
  "unescape c =
     (if c = CHR 0x22 then Some (CHR 0x22)
      else if c = CHR 0x5C then Some (CHR 0x5C)
      else if c = CHR ''/'' then Some (CHR ''/'')
      else if c = CHR ''b'' then Some (CHR 0x08)
      else if c = CHR ''f'' then Some (CHR 0x0C)
      else if c = CHR ''n'' then Some (CHR 0x0A)
      else if c = CHR ''r'' then Some (CHR 0x0D)
      else if c = CHR ''t'' then Some (CHR 0x09)
      else None)"

definition punct :: "char \<Rightarrow> token option" where
  "punct c =
     (if c = CHR ''{'' then Some TLBrace
      else if c = CHR ''}'' then Some TRBrace
      else if c = CHR ''['' then Some TLBrack
      else if c = CHR '']'' then Some TRBrack
      else if c = CHR '':'' then Some TColon
      else if c = CHR '','' then Some TComma
      else None)"

datatype lexmode = Idle | InStr string | InEsc string | InNum string | InWord string

definition emit :: "token option \<Rightarrow> token list option \<Rightarrow> token list option" where
  "emit t ts =
     (case t of
        None \<Rightarrow> None
      | Some x \<Rightarrow> (case ts of None \<Rightarrow> None | Some xs \<Rightarrow> Some (x # xs)))"

text \<open>
  The lexer reads one character at a time. A number or a word ends at the first character
  that cannot continue it; that character is then either white space or punctuation, for
  nothing else can follow a value.
\<close>

fun lex :: "lexmode \<Rightarrow> string \<Rightarrow> token list option" where
  "lex Idle [] = Some []"
| "lex Idle (c # cs) =
     (if is_ws c then lex Idle cs
      else if c = CHR 0x22 then lex (InStr []) cs
      else if c = CHR ''-'' \<or> is_digit c then lex (InNum [c]) cs
      else if is_alpha c then lex (InWord [c]) cs
      else emit (punct c) (lex Idle cs))"
| "lex (InStr acc) [] = None"
| "lex (InStr acc) (c # cs) =
     (if c = CHR 0x22 then emit (Some (TStr acc)) (lex Idle cs)
      else if c = CHR 0x5C then lex (InEsc acc) cs
      else if (of_char c :: nat) < 32 then None
      else lex (InStr (acc @ [c])) cs)"
| "lex (InEsc acc) [] = None"
| "lex (InEsc acc) (c # cs) =
     (case unescape c of
        None \<Rightarrow> None
      | Some d \<Rightarrow> lex (InStr (acc @ [d])) cs)"
| "lex (InNum acc) [] = emit (number acc) (Some [])"
| "lex (InNum acc) (c # cs) =
     (if is_num_char c then lex (InNum (acc @ [c])) cs
      else if is_ws c then emit (number acc) (lex Idle cs)
      else emit (number acc) (emit (punct c) (lex Idle cs)))"
| "lex (InWord acc) [] = emit (word_token acc) (Some [])"
| "lex (InWord acc) (c # cs) =
     (if is_alpha c then lex (InWord (acc @ [c])) cs
      else if is_ws c then emit (word_token acc) (lex Idle cs)
      else emit (word_token acc) (emit (punct c) (lex Idle cs)))"

text \<open>
  The parser runs over the tokens with a stack of the containers still open. A dict is
  built as Python builds it: a key seen again keeps its place and takes the new value.
\<close>

fun dict_set :: "(string \<times> json) list \<Rightarrow> string \<Rightarrow> json \<Rightarrow> (string \<times> json) list" where
  "dict_set [] k v = [(k, v)]"
| "dict_set ((k', v') # kvs) k v =
     (if k' = k then (k, v) # kvs else (k', v') # dict_set kvs k v)"

datatype frame =
    FArr "json list"
  | FObj "(string \<times> json) list"
  | FKey "(string \<times> json) list" string

datatype pstate = PValue | PFirst | PKeyFirst | PKey | PColon | PDone json

definition start :: "token \<Rightarrow> frame list \<Rightarrow> (pstate \<times> frame list) option" where
  "start t st =
     (case t of
        TStr s \<Rightarrow> Some (PDone (JStr s), st)
      | TInt i \<Rightarrow> Some (PDone (JInt i), st)
      | TFloat f \<Rightarrow> Some (PDone (JFloat f), st)
      | TTrue \<Rightarrow> Some (PDone (JBool True), st)
      | TFalse \<Rightarrow> Some (PDone (JBool False), st)
      | TNull \<Rightarrow> Some (PDone JNull, st)
      | TLBrack \<Rightarrow> Some (PFirst, FArr [] # st)
      | TLBrace \<Rightarrow> Some (PKeyFirst, FObj [] # st)
      | _ \<Rightarrow> None)"

fun parse :: "pstate \<Rightarrow> frame list \<Rightarrow> token list \<Rightarrow> json option" where
  "parse (PDone v) [] [] = Some v"
| "parse _ _ [] = None"
| "parse PValue st (t # ts) =
     (case start t st of None \<Rightarrow> None | Some (q, st') \<Rightarrow> parse q st' ts)"
| "parse PFirst st (t # ts) =
     (case (t, st) of
        (TRBrack, FArr acc # st') \<Rightarrow> parse (PDone (JArr acc)) st' ts
      | _ \<Rightarrow> (case start t st of None \<Rightarrow> None | Some (q, st') \<Rightarrow> parse q st' ts))"
| "parse PKeyFirst st (t # ts) =
     (case (t, st) of
        (TRBrace, FObj acc # st') \<Rightarrow> parse (PDone (JObj acc)) st' ts
      | (TStr k, FObj acc # st') \<Rightarrow> parse PColon (FKey acc k # st') ts
      | _ \<Rightarrow> None)"
| "parse PKey st (t # ts) =
     (case (t, st) of
        (TStr k, FObj acc # st') \<Rightarrow> parse PColon (FKey acc k # st') ts
      | _ \<Rightarrow> None)"
| "parse PColon st (t # ts) =
     (case t of TColon \<Rightarrow> parse PValue st ts | _ \<Rightarrow> None)"
| "parse (PDone v) st (t # ts) =
     (case (t, st) of
        (TComma, FArr acc # st') \<Rightarrow> parse PValue (FArr (acc @ [v]) # st') ts
      | (TRBrack, FArr acc # st') \<Rightarrow> parse (PDone (JArr (acc @ [v]))) st' ts
      | (TComma, FKey acc k # st') \<Rightarrow> parse PKey (FObj (dict_set acc k v) # st') ts
      | (TRBrace, FKey acc k # st') \<Rightarrow> parse (PDone (JObj (dict_set acc k v))) st' ts
      | _ \<Rightarrow> None)"

definition json_loads :: "string \<Rightarrow> json option" where
  "json_loads s = (case lex Idle s of None \<Rightarrow> None | Some ts \<Rightarrow> parse PValue [] ts)"

subsection \<open>\<^verbatim>\<open>str(uuid.uuid4())\<close>\<close>

text \<open>
  A UUID is a 128-bit number; \<^verbatim>\<open>str\<close> prints it as 32 lower-case hexadecimal digits,
  most significant first, in groups of 8, 4, 4, 4 and 12 joined by hyphens.
\<close>

type_synonym uuid = "128 word"

definition hex_digit :: "nat \<Rightarrow> char" where
  "hex_digit n = ''0123456789abcdef'' ! n"

definition nibble :: "uuid \<Rightarrow> nat \<Rightarrow> nat" where
  "nibble w i = unat (drop_bit (4 * (31 - i)) w AND 15)"

definition hex32 :: "uuid \<Rightarrow> string" where
  "hex32 w = map (\<lambda>i. hex_digit (nibble w i)) [0..<32]"

definition uuid_str :: "uuid \<Rightarrow> string" where
  "uuid_str w =
     (let h = hex32 w
      in take 8 h @ ''-'' @ take 4 (drop 8 h) @ ''-'' @ take 4 (drop 12 h) @ ''-''
         @ take 4 (drop 16 h) @ ''-'' @ drop 20 h)"

subsection \<open>The socket\<close>

text \<open>
  The peer is a script: what each \<^verbatim>\<open>recv\<close> will find, in order. \<open>Data bs\<close> is the text,
  not empty, that one write of the peer made available; \<open>Reset\<close> makes \<^verbatim>\<open>recv\<close> raise.
  When the script is over the peer has closed the connection and \<^verbatim>\<open>recv\<close> returns the
  empty text. \<open>sock_closed\<close> says that the socket can no longer be used, so that
  \<^verbatim>\<open>send\<close> and \<^verbatim>\<open>recv\<close> raise: after \<^verbatim>\<open>close\<close>, and once the peer has reset or closed
  the connection. \<open>sent\<close> logs each value that was serialised with \<^verbatim>\<open>json.dumps\<close> and
  written; \<^verbatim>\<open>send\<close> is taken to write the whole text.
\<close>

datatype event = Data string | Reset

record socket =
  sock_closed :: bool
  sent :: "json list"
  inbox :: "event list"

definition sock_send :: "socket \<Rightarrow> json \<Rightarrow> exn + socket" where
  "sock_send s payload =
     (if sock_closed s then Inl OSError else Inr (s\<lparr>sent := sent s @ [payload]\<rparr>))"

definition sock_recv :: "socket \<Rightarrow> nat \<Rightarrow> (exn + string) \<times> socket" where
  "sock_recv s n =
     (if sock_closed s then (Inl OSError, s)
      else
        (case inbox s of
           [] \<Rightarrow> (Inr [], s\<lparr>sock_closed := True\<rparr>)
         | Reset # evs \<Rightarrow> (Inl OSError, s\<lparr>inbox := evs, sock_closed := True\<rparr>)
         | Data bs # evs \<Rightarrow>
             if length bs \<le> n then (Inr bs, s\<lparr>inbox := evs\<rparr>)
             else (Inr (take n bs), s\<lparr>inbox := Data (drop n bs) # evs\<rparr>)))"

subsection \<open>\<^verbatim>\<open>LightsClient\<close>\<close>

text \<open>
  The fields of the object, and with them what the class reads from its process: the
  UUIDs that \<^verbatim>\<open>uuid.uuid4()\<close> will return (\<open>uuids\<close>, of which \<open>drawn\<close> are used up) and
  the lines printed so far (\<open>stdout\<close>).
\<close>

record client =
  host :: string
  port :: nat
  sock :: socket
  pipeline :: "json list"
  batch :: bool
  uuids :: "nat \<Rightarrow> uuid"
  drawn :: nat
  stdout :: "string list"

type_synonym 'a result = "(exn + 'a) \<times> client"

definition make_payload :: "client \<Rightarrow> string \<Rightarrow> json \<Rightarrow> json \<times> client" where
  "make_payload c method params =
     (JObj [(''method'', JStr method),
            (''params'', params),
            (''jsonrpc'', JStr ''2.0''),
            (''id'', JStr (uuid_str (uuids c (drawn c))))],
      c\<lparr>drawn := Suc (drawn c)\<rparr>)"

definition execute_payload :: "client \<Rightarrow> json \<Rightarrow> json result" where
  "execute_payload c payload =
     (case sock_send (sock c) payload of
        Inl e \<Rightarrow> (Inl e, c)
      | Inr s1 \<Rightarrow>
          (case sock_recv s1 8192 of
             (Inl e, s2) \<Rightarrow> (Inl e, c\<lparr>sock := s2\<rparr>)
           | (Inr bs, s2) \<Rightarrow>
               (case decode_utf8 bs of
                  Inl e \<Rightarrow> (Inl e, c\<lparr>sock := s2\<rparr>)
                | Inr response \<Rightarrow>
                    (case json_loads response of
                       Some v \<Rightarrow> (Inr v, c\<lparr>sock := s2\<rparr>)
                     | None \<Rightarrow>
                         (Inr (JStr response),
                          c\<lparr>sock := s2,
                            stdout := stdout c @ [''received invalid json: '' @ response]\<rparr>)))))"

definition jsonrpc_call :: "client \<Rightarrow> string \<Rightarrow> json \<Rightarrow> json result" where
  "jsonrpc_call c method params =
     (case make_payload c method params of
        (payload, c1) \<Rightarrow>
          if batch c1 then (Inr JNull, c1\<lparr>pipeline := pipeline c1 @ [payload]\<rparr>)
          else execute_payload c1 payload)"

definition close :: "client \<Rightarrow> client" where
  "close c = c\<lparr>sock := (sock c)\<lparr>sock_closed := True\<rparr>\<rparr>"

text \<open>
  \<^verbatim>\<open>batch\<close> is a generator-based context manager: \<open>batch_enter\<close> is its code up to the
  \<^verbatim>\<open>yield\<close> and returns the list it yields, \<open>batch_exit\<close> is its code after the
  \<^verbatim>\<open>yield\<close>, run when the \<^verbatim>\<open>with\<close> block ends, on that list as the block left it.
\<close>

definition batch_enter :: "client \<Rightarrow> (json list) result" where
  "batch_enter c = (Inr [], c\<lparr>batch := True\<rparr>)"

definition batch_exit :: "client \<Rightarrow> json list \<Rightarrow> (json list) result" where
  "batch_exit c response =
     (let c1 = c\<lparr>batch := False\<rparr>
      in case execute_payload c1 (JArr (pipeline c1)) of
           (Inl e, c2) \<Rightarrow> (Inl e, c2)
         | (Inr res, c2) \<Rightarrow>
             (Inr (case res of JArr xs \<Rightarrow> response @ xs | _ \<Rightarrow> response @ [res]),
              c2\<lparr>pipeline := []\<rparr>))"

text \<open>
  The \<^verbatim>\<open>with\<close> statement around a block. A block that raises throws its exception into
  the generator at the \<^verbatim>\<open>yield\<close>, where nothing catches it: the code after the
  \<^verbatim>\<open>yield\<close> does not run.
\<close>

definition batch_with ::
  "client \<Rightarrow> (client \<Rightarrow> json list \<Rightarrow> (json list) result) \<Rightarrow> (json list) result" where
  "batch_with c block =
     (case batch_enter c of
        (Inl e, c1) \<Rightarrow> (Inl e, c1)
      | (Inr response, c1) \<Rightarrow>
          (case block c1 response of
             (Inl e, c2) \<Rightarrow> (Inl e, c2)
           | (Inr response', c2) \<Rightarrow> batch_exit c2 response'))"

definition set_light_from_hsbk ::
  "client \<Rightarrow> json \<Rightarrow> json \<Rightarrow> json \<Rightarrow> json \<Rightarrow> json \<Rightarrow> json \<Rightarrow> json result" where
  "set_light_from_hsbk c target h s b k t =
     jsonrpc_call c ''set_light_from_hsbk'' (JArr [target, h, s, b, k, t])"

definition set_waveform ::
  "client \<Rightarrow> json \<Rightarrow> json \<Rightarrow> json \<Rightarrow> json \<Rightarrow> json \<Rightarrow> json \<Rightarrow> json \<Rightarrow> json \<Rightarrow> json \<Rightarrow> json
     \<Rightarrow> json result" where
  "set_waveform c target waveform h s b k period cycles skew_ratio transient =
     jsonrpc_call c ''set_waveform''
       (JArr [target, waveform, h, s, b, k, period, cycles, skew_ratio, transient])"

text \<open>
  The presets. An argument the source gives a default is an \<open>option\<close> here, \<open>None\<close> when
  the caller leaves it out.
\<close>

definition default_arg :: "json \<Rightarrow> json option \<Rightarrow> json" where
  "default_arg d x = (case x of None \<Rightarrow> d | Some v \<Rightarrow> v)"

definition saw ::
  "client \<Rightarrow> json \<Rightarrow> json \<Rightarrow> json \<Rightarrow> json \<Rightarrow> json \<Rightarrow> json \<Rightarrow> json \<Rightarrow> json option
     \<Rightarrow> json result" where
  "saw c target h s b k period cycles transient =
     set_waveform c target (JStr ''SAW'') h s b k period cycles (JFloat (Fin 0.5))
       (default_arg (JBool True) transient)"

definition sine ::
  "client \<Rightarrow> json \<Rightarrow> json \<Rightarrow> json \<Rightarrow> json \<Rightarrow> json \<Rightarrow> json \<Rightarrow> json \<Rightarrow> json option
     \<Rightarrow> json option \<Rightarrow> json result" where
  "sine c target h s b k period cycles peak transient =
     set_waveform c target (JStr ''SINE'') h s b k period cycles
       (default_arg (JFloat (Fin 0.5)) peak) (default_arg (JBool True) transient)"

definition half_sine ::
  "client \<Rightarrow> json \<Rightarrow> json \<Rightarrow> json \<Rightarrow> json \<Rightarrow> json \<Rightarrow> json \<Rightarrow> json \<Rightarrow> json option
     \<Rightarrow> json result" where
  "half_sine c target h s b k period cycles transient =
     set_waveform c target (JStr ''HALF_SINE'') h s b k period cycles (JFloat (Fin 0.5))
       (default_arg (JBool True) transient)"

definition triangle ::
  "client \<Rightarrow> json \<Rightarrow> json \<Rightarrow> json \<Rightarrow> json \<Rightarrow> json \<Rightarrow> json \<Rightarrow> json \<Rightarrow> json option
     \<Rightarrow> json option \<Rightarrow> json result" where
  "triangle c target h s b k period cycles peak transient =
     set_waveform c target (JStr ''TRIANGLE'') h s b k period cycles
       (default_arg (JFloat (Fin 0.5)) peak) (default_arg (JBool True) transient)"

definition square ::
  "client \<Rightarrow> json \<Rightarrow> json \<Rightarrow> json \<Rightarrow> json \<Rightarrow> json \<Rightarrow> json \<Rightarrow> json \<Rightarrow> json option
     \<Rightarrow> json option \<Rightarrow> json result" where
  "square c target h s b k period cycles duty_cycle transient =
     set_waveform c target (JStr ''SQUARE'') h s b k period cycles
       (default_arg (JFloat (Fin 0.5)) duty_cycle) (default_arg (JBool True) transient)"

definition power_on :: "client \<Rightarrow> json \<Rightarrow> json result" where
  "power_on c target = jsonrpc_call c ''power_on'' (JObj [(''target'', target)])"

definition power_off :: "client \<Rightarrow> json \<Rightarrow> json result" where
  "power_off c target = jsonrpc_call c ''power_off'' (JObj [(''target'', target)])"

definition power_toggle :: "client \<Rightarrow> json \<Rightarrow> json result" where
  "power_toggle c target = jsonrpc_call c ''power_toggle'' (JObj [(''target'', target)])"

definition get_light_state :: "client \<Rightarrow> json \<Rightarrow> json result" where
  "get_light_state c target = jsonrpc_call c ''get_light_state'' (JArr [target])"

definition tag :: "client \<Rightarrow> json \<Rightarrow> json \<Rightarrow> json result" where
  "tag c target tg = jsonrpc_call c ''tag'' (JArr [target, tg])"

definition untag :: "client \<Rightarrow> json \<Rightarrow> json \<Rightarrow> json result" where
  "untag c target tg = jsonrpc_call c ''untag'' (JArr [target, tg])"

definition set_label :: "client \<Rightarrow> json \<Rightarrow> json \<Rightarrow> json result" where
  "set_label c target label = jsonrpc_call c ''set_label'' (JArr [target, label])"

subsection \<open>\<^verbatim>\<open>adjust_brightness\<close>\<close>

text \<open>
  What Python does with a value of the wrong kind is written out: \<^verbatim>\<open>x["key"]\<close> is a
  lookup on a dict (\<^verbatim>\<open>KeyError\<close> when the key is missing) and a \<^verbatim>\<open>TypeError\<close> on anything
  else; iterating gives the elements of a list, the keys of a dict, the characters of a
  \<^verbatim>\<open>str\<close>, and a \<^verbatim>\<open>TypeError\<close> on anything else; unpacking into four names needs exactly
  four items (\<^verbatim>\<open>ValueError\<close> otherwise); \<^verbatim>\<open>+\<close> with a number takes a number or a bool
  (\<^verbatim>\<open>TypeError\<close> otherwise) and raises \<^verbatim>\<open>OverflowError\<close> when an \<^verbatim>\<open>int\<close> too large for a
  \<^verbatim>\<open>float\<close> meets a \<^verbatim>\<open>float\<close>. The adjustment is a number.
\<close>

definition py_getitem :: "json \<Rightarrow> string \<Rightarrow> exn + json" where
  "py_getitem v key =
     (case v of
        JObj kvs \<Rightarrow> (case map_of kvs key of None \<Rightarrow> Inl (KeyError key) | Some x \<Rightarrow> Inr x)
      | _ \<Rightarrow> Inl TypeError)"

fun codepoints :: "string \<Rightarrow> string list" where
  "codepoints [] = []"
| "codepoints (c # cs) =
     (case codepoints cs of
        [] \<Rightarrow> [[c]]
      | g # gs \<Rightarrow> if cont_byte (of_char (hd g)) then (c # g) # gs else [c] # g # gs)"

definition py_iter :: "json \<Rightarrow> exn + json list" where
  "py_iter v =
     (case v of
        JArr xs \<Rightarrow> Inr xs
      | JObj kvs \<Rightarrow> Inr (map (\<lambda>kv. JStr (fst kv)) kvs)
      | JStr s \<Rightarrow> Inr (map JStr (codepoints s))
      | _ \<Rightarrow> Inl TypeError)"

definition unpack4 :: "json \<Rightarrow> exn + (json \<times> json \<times> json \<times> json)" where
  "unpack4 v =
     (case py_iter v of
        Inl e \<Rightarrow> Inl e
      | Inr xs \<Rightarrow> (case xs of [h, s, b, k] \<Rightarrow> Inr (h, s, b, k) | _ \<Rightarrow> Inl ValueError))"

definition py_add :: "json \<Rightarrow> pynum \<Rightarrow> exn + pynum" where
  "py_add v a = (case as_num v of None \<Rightarrow> Inl TypeError | Some x \<Rightarrow> num_add x a)"

definition adjust_bulb :: "client \<Rightarrow> json \<Rightarrow> pynum \<Rightarrow> json result" where
  "adjust_bulb c bulb adjustment =
     (case py_getitem bulb ''hsbk'' of
        Inl e \<Rightarrow> (Inl e, c)
      | Inr v \<Rightarrow>
          (case unpack4 v of
             Inl e \<Rightarrow> (Inl e, c)
           | Inr (h, s, b, k) \<Rightarrow>
               (case py_add b adjustment of
                  Inl e \<Rightarrow> (Inl e, c)
                | Inr x \<Rightarrow>
                    (let b' = py_max (py_min x (PFloat (Fin 1))) (PFloat (Fin 0))
                     in case py_getitem bulb ''label'' of
                          Inl e \<Rightarrow> (Inl e, c)
                        | Inr label \<Rightarrow>
                            set_light_from_hsbk c label h s (num_json b') k (JInt 500)))))"

fun adjust_loop :: "client \<Rightarrow> json list \<Rightarrow> pynum \<Rightarrow> json result" where
  "adjust_loop c [] adjustment = (Inr JNull, c)"
| "adjust_loop c (bulb # bulbs) adjustment =
     (case adjust_bulb c bulb adjustment of
        (Inl e, c') \<Rightarrow> (Inl e, c')
      | (Inr _, c') \<Rightarrow> adjust_loop c' bulbs adjustment)"

definition adjust_brightness :: "client \<Rightarrow> json \<Rightarrow> pynum \<Rightarrow> json result" where
  "adjust_brightness c target adjustment =
     (case get_light_state c target of
        (Inl e, c1) \<Rightarrow> (Inl e, c1)
      | (Inr reply, c1) \<Rightarrow>
          (case py_getitem reply ''result'' of
             Inl e \<Rightarrow> (Inl e, c1)
           | Inr v \<Rightarrow>
               (case py_iter v of
                  Inl e \<Rightarrow> (Inl e, c1)
                | Inr bulbs \<Rightarrow> adjust_loop c1 bulbs adjustment)))"

subsection \<open>Sessions\<close>

text \<open>
  \<open>init\<close> is the object \<^verbatim>\<open>__init__\<close> leaves when the connection succeeds, given the
  peer's script and the UUIDs the process will draw. The sessions below are the concrete
  runs the examples are evaluated on; in all of them the \<open>n\<close>-th UUID drawn is the
  number \<open>n\<close>.
\<close>

definition init :: "string \<Rightarrow> nat \<Rightarrow> event list \<Rightarrow> (nat \<Rightarrow> uuid) \<Rightarrow> client" where
  "init h p evs us =
     \<lparr>host = h, port = p,
      sock = \<lparr>sock_closed = False, sent = [], inbox = evs\<rparr>,
      pipeline = [], batch = False, uuids = us, drawn = 0, stdout = []\<rparr>"

definition connect :: "event list \<Rightarrow> client" where
  "connect evs = init ''localhost'' 1234 evs word_of_nat"


definition id0 :: string where
  "id0 = ''00000000-0000-0000-0000-000000000000''"

definition id1 :: string where
  "id1 = ''00000000-0000-0000-0000-000000000001''"

definition envelope :: "string \<Rightarrow> json \<Rightarrow> string \<Rightarrow> json" where
  "envelope method params ident =
     JObj [(''method'', JStr method), (''params'', params), (''jsonrpc'', JStr ''2.0''),
           (''id'', JStr ident)]"

text \<open>A batch of one \<^verbatim>\<open>power_on\<close>, open, over a given script.\<close>

definition batch_of_one :: "event list \<Rightarrow> client" where
  "batch_of_one evs = snd (power_on (snd (batch_enter (connect evs))) (JStr ''*''))"

text \<open>A batch of \<^verbatim>\<open>power_on\<close> then \<^verbatim>\<open>power_off\<close>, open, over a given script.\<close>

definition batch_of_two :: "event list \<Rightarrow> client" where
  "batch_of_two evs = snd (power_off (batch_of_one evs) (JStr ''*''))"

definition reply_result_42 :: string where
  \<open>reply_result_42 = ''{"id": "00000000-0000-0000-0000-000000000000", "result": 42}''\<close>

definition reply_error_boom :: string where
  \<open>reply_error_boom =
     ''{"id": "00000000-0000-0000-0000-000000000000", "error": {"code": -1, "message": "boom"}}''\<close>

definition reply_batch_one :: string where
  \<open>reply_batch_one = ''[{"id": "00000000-0000-0000-0000-000000000000", "result": true}]''\<close>

definition reply_batch_reversed :: string where
  \<open>reply_batch_reversed =
     ''[{"id": "00000000-0000-0000-0000-000000000001", "result": false}, {"id": "00000000-0000-0000-0000-000000000000", "result": true}]''\<close>

text \<open>One byte that is not UTF-8.\<close>

definition reply_not_utf8 :: string where
  "reply_not_utf8 = [CHR 0xFF]"

definition reply_not_json :: string where
  "reply_not_json = ''lightsd: out of memory''"

text \<open>One reply, written by the peer in three pieces.\<close>

definition piece1 :: string where
  \<open>piece1 = ''{"id": "00000000-0000-''\<close>

definition piece2 :: string where
  \<open>piece2 = ''0000-0000-000000000000", "res''\<close>

definition piece3 :: string where
  \<open>piece3 = ''ult": 42}''\<close>

definition reply_state_bulb1 :: string where
  \<open>reply_state_bulb1 =
     ''{"id": "00000000-0000-0000-0000-000000000000", "result": [{"hsbk": [0, 0, 0.9, 3500], "label": "bulb1"}]}''\<close>

definition reply_state_second_bad :: string where
  \<open>reply_state_second_bad =
     ''{"id": "00000000-0000-0000-0000-000000000000", "result": [{"hsbk": [0, 0, 0.9, 3500], "label": "bulb1"}, {"label": "bulb2"}]}''\<close>

definition reply_true_1 :: string where
  \<open>reply_true_1 = ''{"id": "00000000-0000-0000-0000-000000000001", "result": true}''\<close>

subsection \<open>Notions the properties are stated with\<close>

text \<open>
  \<open>placed c c' method params\<close>: going from \<open>c\<close> to \<open>c'\<close> put exactly one request
  envelope with this method and these params where the mode of \<open>c\<close> sends it, on the
  wire in single mode, at the end of the pending list in batch mode.
\<close>

definition placed :: "client \<Rightarrow> client \<Rightarrow> string \<Rightarrow> json \<Rightarrow> bool" where
  "placed c c' method params =
     (if batch c
      then pipeline c' = pipeline c @ [envelope method params (uuid_str (uuids c (drawn c)))]
           \<and> sent (sock c') = sent (sock c)
      else sent (sock c') = sent (sock c) @ [envelope method params (uuid_str (uuids c (drawn c)))]
           \<and> pipeline c' = pipeline c)"

text \<open>
  A session is any sequence of the class's operations; every wrapper and
  \<^verbatim>\<open>adjust_brightness\<close> are sequences of calls. \<open>built\<close> lists the envelopes
  \<^verbatim>\<open>_make_payload\<close> constructs along a session.
\<close>

datatype command = Call string json | BatchEnter | BatchExit "json list" | Close

fun step :: "client \<Rightarrow> command \<Rightarrow> client" where
  "step c (Call method params) = snd (jsonrpc_call c method params)"
| "step c BatchEnter = snd (batch_enter c)"
| "step c (BatchExit response) = snd (batch_exit c response)"
| "step c Close = close c"


text \<open>The float a literal of the source stands for.\<close>

definition float_lit :: "real \<Rightarrow> pynum" where
  "float_lit x = PFloat (round_double x)"


text \<open>The method and the params of an envelope, as a reader of the wire finds them.\<close>

definition request_of :: "json \<Rightarrow> (exn + json) \<times> (exn + json)" where
  "request_of e = (py_getitem e ''method'', py_getitem e ''params'')"

text \<open>The specification's \<^verbatim>\<open>clamp(x, lo, hi)\<close>, on Python numbers.\<close>

definition clamp :: "pynum \<Rightarrow> pynum \<Rightarrow> pynum \<Rightarrow> pynum" where
  "clamp x lo hi = (if num_lt x lo then lo else if num_lt hi x then hi else x)"

text \<open>
  A device as \<^verbatim>\<open>get_light_state\<close> reports it: a dict with its label and its colour,
  hue, saturation, brightness and kelvin in this order, the brightness a number.
\<close>

definition device :: "json \<Rightarrow> (json \<times> json \<times> json \<times> pynum \<times> json) option" where
  "device d =
     (case d of
        JObj kvs \<Rightarrow>
          (case (map_of kvs ''hsbk'', map_of kvs ''label'') of
             (Some (JArr [h, s, b, k]), Some label) \<Rightarrow>
               (case as_num b of None \<Rightarrow> None | Some x \<Rightarrow> Some (label, h, s, x, k))
           | _ \<Rightarrow> None)
      | _ \<Rightarrow> None)"

text \<open>
  The write the specification expects for a device, where Python can add the adjustment
  to its brightness.
\<close>

definition expected_write ::
  "pynum \<Rightarrow> json \<times> json \<times> json \<times> pynum \<times> json \<Rightarrow> ((exn + json) \<times> (exn + json)) option" where
  "expected_write delta dev =
     (case dev of
        (label, h, s, b, k) \<Rightarrow>
          (case num_add b delta of
             Inl _ \<Rightarrow> None
           | Inr x \<Rightarrow>
               Some (Inr (JStr ''set_light_from_hsbk''),
                     Inr (JArr [label, h, s,
                                num_json (clamp x (PFloat (Fin 0)) (PFloat (Fin 1))), k,
                                JInt 500]))))"

text \<open>
  \<open>quiet n evs\<close>: the peer answers the next \<open>n\<close> exchanges, each with one piece that fits
  one \<^verbatim>\<open>recv\<close> and decodes, so that none of them raises.
\<close>

definition good_piece :: "event \<Rightarrow> bool" where
  "good_piece ev =
     (case ev of
        Data bs \<Rightarrow> bs \<noteq> [] \<and> length bs \<le> 8192 \<and> utf8_ok (map of_char bs)
      | Reset \<Rightarrow> False)"

definition quiet :: "nat \<Rightarrow> event list \<Rightarrow> bool" where
  "quiet n evs = (n \<le> length evs \<and> list_all good_piece (take n evs))"

text \<open>
  The shape \<^verbatim>\<open>adjust_brightness\<close> needs of a reply: a mapping with a \<^verbatim>\<open>result\<close> key
  holding an iterable of devices, each with a \<^verbatim>\<open>label\<close> key and an \<^verbatim>\<open>hsbk\<close> value of
  exactly four components.
\<close>

definition device_shape :: "json \<Rightarrow> bool" where
  "device_shape d =
     (case py_getitem d ''hsbk'' of
        Inl _ \<Rightarrow> False
      | Inr v \<Rightarrow>
          (case unpack4 v of
             Inl _ \<Rightarrow> False
           | Inr _ \<Rightarrow> (case py_getitem d ''label'' of Inl _ \<Rightarrow> False | Inr _ \<Rightarrow> True)))"

definition devices_of :: "json \<Rightarrow> json list option" where
  "devices_of reply =
     (case py_getitem reply ''result'' of
        Inl _ \<Rightarrow> None
      | Inr v \<Rightarrow> (case py_iter v of Inl _ \<Rightarrow> None | Inr ds \<Rightarrow> Some ds))"

definition reply_shape :: "json \<Rightarrow> bool" where
  "reply_shape reply =
     (case devices_of reply of None \<Rightarrow> False | Some ds \<Rightarrow> list_all device_shape ds)"

text \<open>The well-shaped devices at the head of a reply, up to the first that is not.\<close>

definition shaped_prefix :: "json \<Rightarrow> json list" where
  "shaped_prefix reply =
     (case devices_of reply of None \<Rightarrow> [] | Some ds \<Rightarrow> takeWhile device_shape ds)"

section \<open>Properties\<close>

subsection \<open>Evaluations of the library functions\<close>

lemma uuid_str_0: "uuid_str 0 = id0"
  unfolding id0_def by code_simp

lemma uuid_str_1: "uuid_str 1 = id1"
  unfolding id1_def by code_simp

lemma loads_result_42:
  "json_loads reply_result_42 = Some (JObj [(''id'', JStr id0), (''result'', JInt 42)])"
  unfolding reply_result_42_def id0_def by code_simp

lemma utf8_result_42: "utf8_ok (map of_char reply_result_42)"
  unfolding reply_result_42_def by code_simp

lemma loads_error_boom:
  "json_loads reply_error_boom =
     Some (JObj [(''id'', JStr id0),
                 (''error'', JObj [(''code'', JInt (- 1)), (''message'', JStr ''boom'')])])"
  unfolding reply_error_boom_def id0_def by code_simp

lemma utf8_error_boom: "utf8_ok (map of_char reply_error_boom)"
  unfolding reply_error_boom_def by code_simp

lemma loads_batch_one:
  "json_loads reply_batch_one = Some (JArr [JObj [(''id'', JStr id0), (''result'', JBool True)]])"
  unfolding reply_batch_one_def id0_def by code_simp

lemma utf8_batch_one: "utf8_ok (map of_char reply_batch_one)"
  unfolding reply_batch_one_def by code_simp

lemma loads_batch_reversed:
  "json_loads reply_batch_reversed =
     Some (JArr [JObj [(''id'', JStr id1), (''result'', JBool False)],
                 JObj [(''id'', JStr id0), (''result'', JBool True)]])"
  unfolding reply_batch_reversed_def id0_def id1_def by code_simp

lemma utf8_batch_reversed: "utf8_ok (map of_char reply_batch_reversed)"
  unfolding reply_batch_reversed_def by code_simp

lemma not_utf8: "\<not> utf8_ok (map of_char reply_not_utf8)"
  unfolding reply_not_utf8_def by simp

lemma loads_not_json: "json_loads reply_not_json = None"
  unfolding reply_not_json_def by code_simp

lemma utf8_not_json: "utf8_ok (map of_char reply_not_json)"
  unfolding reply_not_json_def by code_simp

lemma loads_piece1: "json_loads piece1 = None"
  unfolding piece1_def by code_simp

lemma utf8_piece1: "utf8_ok (map of_char piece1)"
  unfolding piece1_def by code_simp

lemma loads_pieces:
  "json_loads (piece1 @ piece2 @ piece3) = Some (JObj [(''id'', JStr id0), (''result'', JInt 42)])"
  unfolding piece1_def piece2_def piece3_def id0_def by code_simp

lemma length_replies:
  "length reply_result_42 \<le> 8192" "length reply_error_boom \<le> 8192"
  "length reply_batch_one \<le> 8192" "length reply_batch_reversed \<le> 8192"
  "length reply_not_json \<le> 8192" "length piece1 \<le> 8192" "length reply_not_utf8 \<le> 8192"
  by (simp_all add: reply_result_42_def reply_error_boom_def reply_batch_one_def
      reply_batch_reversed_def reply_not_json_def piece1_def reply_not_utf8_def)

subsection \<open>One exchange\<close>

lemma execute_payload_parsed:
  "\<not> sock_closed (sock c) \<Longrightarrow> inbox (sock c) = Data t # evs \<Longrightarrow> length t \<le> 8192 \<Longrightarrow>
   utf8_ok (map of_char t) \<Longrightarrow> json_loads t = Some v \<Longrightarrow>
   execute_payload c p =
     (Inr v, c\<lparr>sock := (sock c)\<lparr>sent := sent (sock c) @ [p], inbox := evs\<rparr>\<rparr>)"
  by (simp add: execute_payload_def sock_send_def sock_recv_def decode_utf8_def)

lemma execute_payload_raw:
  "\<not> sock_closed (sock c) \<Longrightarrow> inbox (sock c) = Data t # evs \<Longrightarrow> length t \<le> 8192 \<Longrightarrow>
   utf8_ok (map of_char t) \<Longrightarrow> json_loads t = None \<Longrightarrow>
   execute_payload c p =
     (Inr (JStr t),
      c\<lparr>sock := (sock c)\<lparr>sent := sent (sock c) @ [p], inbox := evs\<rparr>,
        stdout := stdout c @ [''received invalid json: '' @ t]\<rparr>)"
  by (simp add: execute_payload_def sock_send_def sock_recv_def decode_utf8_def)

lemma execute_payload_undecodable:
  "\<not> sock_closed (sock c) \<Longrightarrow> inbox (sock c) = Data t # evs \<Longrightarrow> length t \<le> 8192 \<Longrightarrow>
   \<not> utf8_ok (map of_char t) \<Longrightarrow>
   execute_payload c p =
     (Inl UnicodeDecodeError,
      c\<lparr>sock := (sock c)\<lparr>sent := sent (sock c) @ [p], inbox := evs\<rparr>\<rparr>)"
  by (simp add: execute_payload_def sock_send_def sock_recv_def decode_utf8_def)

lemma connect_simps:
  "sock (connect evs) = \<lparr>sock_closed = False, sent = [], inbox = evs\<rparr>"
  "pipeline (connect evs) = []" "batch (connect evs) = False"
  "drawn (connect evs) = 0" "uuids (connect evs) = word_of_nat" "stdout (connect evs) = []"
  by (simp_all add: connect_def init_def)

lemma batch_of_one_simps:
  "sock (batch_of_one evs) = \<lparr>sock_closed = False, sent = [], inbox = evs\<rparr>"
  "pipeline (batch_of_one evs) = [envelope ''power_on'' (JObj [(''target'', JStr ''*'')]) id0]"
  "batch (batch_of_one evs) = True"
  "drawn (batch_of_one evs) = 1" "uuids (batch_of_one evs) = word_of_nat"
  "stdout (batch_of_one evs) = []"
  by (simp_all add: batch_of_one_def batch_enter_def power_on_def jsonrpc_call_def
      make_payload_def connect_simps envelope_def uuid_str_0)

lemma batch_of_two_simps:
  "sock (batch_of_two evs) = \<lparr>sock_closed = False, sent = [], inbox = evs\<rparr>"
  "pipeline (batch_of_two evs) =
     [envelope ''power_on'' (JObj [(''target'', JStr ''*'')]) id0,
      envelope ''power_off'' (JObj [(''target'', JStr ''*'')]) id1]"
  "batch (batch_of_two evs) = True"
  "drawn (batch_of_two evs) = 2" "uuids (batch_of_two evs) = word_of_nat"
  by (simp_all add: batch_of_two_def power_off_def jsonrpc_call_def
      make_payload_def batch_of_one_simps envelope_def uuid_str_1)

lemma execute_payload_frame:
  "pipeline (snd (execute_payload c p)) = pipeline c"
  "batch (snd (execute_payload c p)) = batch c"
  "uuids (snd (execute_payload c p)) = uuids c"
  "drawn (snd (execute_payload c p)) = drawn c"
  by (auto simp: execute_payload_def sock_send_def sock_recv_def decode_utf8_def
      split: sum.splits prod.splits list.splits event.splits option.splits if_splits)

subsection \<open>The state after a batch\<close>

text \<open>
  Claim C1 on a batch of one \<^verbatim>\<open>power_on\<close> whose reply is one byte that is not UTF-8.
  The exchange raises \<^verbatim>\<open>UnicodeDecodeError\<close> out of \<^verbatim>\<open>batch\<close>. The session is back in
  single mode, but the assignment that empties \<^verbatim>\<open>_pipeline\<close> is never reached and the
  request stays pending. The socket is still usable, and a batch opened afterwards with
  one \<^verbatim>\<open>power_off\<close> sends the stale \<^verbatim>\<open>power_on\<close> again in front of it.
\<close>

theorem batch_exit_leaks_pending:
  "fst (batch_exit (batch_of_one [Data reply_not_utf8, Data reply_batch_one]) []) =
     Inl UnicodeDecodeError \<and>
   batch (snd (batch_exit (batch_of_one [Data reply_not_utf8, Data reply_batch_one]) [])) =
     False \<and>
   pipeline (snd (batch_exit (batch_of_one [Data reply_not_utf8, Data reply_batch_one]) [])) =
     [envelope ''power_on'' (JObj [(''target'', JStr ''*'')]) id0] \<and>
   sent (sock (snd (batch_exit
     (snd (power_off
        (snd (batch_enter
           (snd (batch_exit (batch_of_one [Data reply_not_utf8, Data reply_batch_one]) []))))
        (JStr ''*''))) []))) =
     [JArr [envelope ''power_on'' (JObj [(''target'', JStr ''*'')]) id0],
      JArr [envelope ''power_on'' (JObj [(''target'', JStr ''*'')]) id0,
            envelope ''power_off'' (JObj [(''target'', JStr ''*'')]) id1]]"
  by (simp add: batch_exit_def batch_enter_def power_off_def jsonrpc_call_def make_payload_def
      batch_of_one_simps execute_payload_undecodable execute_payload_parsed not_utf8
      loads_batch_one utf8_batch_one length_replies envelope_def uuid_str_1)

text \<open>
  When the exchange returns, \<^verbatim>\<open>batch\<close> does leave the session in single mode with
  nothing pending.
\<close>

lemma batch_exit_returns:
  "fst (batch_exit c response) = Inr results \<Longrightarrow>
   \<not> batch (snd (batch_exit c response)) \<and> pipeline (snd (batch_exit c response)) = []"
proof -
  let ?c1 = "c\<lparr>batch := False\<rparr>"
  assume ok: "fst (batch_exit c response) = Inr results"
  obtain r c2 where ex: "execute_payload ?c1 (JArr (pipeline ?c1)) = (r, c2)"
    by (cases "execute_payload ?c1 (JArr (pipeline ?c1))")
  have "batch c2 = False"
    using execute_payload_frame(2) [of ?c1 "JArr (pipeline ?c1)"] ex by simp
  then show ?thesis
    using ex ok by (cases r) (simp_all add: batch_exit_def)
qed

text \<open>
  A \<^verbatim>\<open>with\<close> block that raises leaves the session batching, with what it queued still
  pending: none of the code after the \<^verbatim>\<open>yield\<close> runs.
\<close>

lemma batch_with_block_raises:
  "block (snd (batch_enter c)) [] = (Inl e, c2) \<Longrightarrow> batch_with c block = (Inl e, c2)"
  by (simp add: batch_with_def batch_enter_def)

lemma batch_with_block_raises_example:
  "batch_with (connect []) (\<lambda>c response. (Inl TypeError, snd (power_on c (JStr ''*'')))) =
     (Inl TypeError, batch_of_one [])"
  by (simp add: batch_with_def batch_enter_def batch_of_one_def)

subsection \<open>What a batch returns\<close>

text \<open>
  Claim C2, as the code has it. \<^verbatim>\<open>batch\<close> does not look at ids. When the reply decodes to
  an array, its elements are appended to the yielded list in the order the server sent
  them, each still carrying its own id; a reply that is not an array is appended as the
  one element.
\<close>

theorem batch_exit_reply_order:
  assumes "\<not> sock_closed (sock c)" "inbox (sock c) = Data t # evs" "length t \<le> 8192"
    "utf8_ok (map of_char t)" "json_loads t = Some v"
  shows "fst (batch_exit c response) =
     Inr (case v of JArr xs \<Rightarrow> response @ xs | _ \<Rightarrow> response @ [v])"
  using assms by (simp add: batch_exit_def execute_payload_parsed)

text \<open>C2 on the batch of two requests answered in reversed order.\<close>

theorem batch_exit_reply_order_witness:
  "fst (batch_exit (batch_of_two [Data reply_batch_reversed]) []) =
     Inr [JObj [(''id'', JStr id1), (''result'', JBool False)],
          JObj [(''id'', JStr id0), (''result'', JBool True)]]"
  using batch_exit_reply_order [of "batch_of_two [Data reply_batch_reversed]"
      reply_batch_reversed "[]" _ "[]"]
  by (simp add: batch_of_two_simps loads_batch_reversed utf8_batch_reversed length_replies)

text \<open>
  C2 as the specification words it fails on that batch: the pending requests have the ids
  \<open>id0\<close>, \<open>id1\<close> in this order, the results come back with the ids \<open>id1\<close>, \<open>id0\<close> in this
  order, so the first result is the reply to the second request.
\<close>

theorem batch_exit_positional_counterexample:
  "pipeline (batch_of_two [Data reply_batch_reversed]) =
     [envelope ''power_on'' (JObj [(''target'', JStr ''*'')]) id0,
      envelope ''power_off'' (JObj [(''target'', JStr ''*'')]) id1] \<and>
   fst (batch_exit (batch_of_two [Data reply_batch_reversed]) []) =
     Inr [JObj [(''id'', JStr id1), (''result'', JBool False)],
          JObj [(''id'', JStr id0), (''result'', JBool True)]] \<and>
   id0 \<noteq> id1"
  by (simp add: batch_exit_def batch_of_two_simps execute_payload_parsed
      loads_batch_reversed utf8_batch_reversed length_replies id0_def id1_def)

subsection \<open>What a call returns in single mode\<close>

text \<open>
  Claim C3, as the code has it. In single mode a call whose reply decodes returns the
  decoded reply whole: the response envelope itself, not its \<^verbatim>\<open>result\<close> member, and an
  envelope with an \<^verbatim>\<open>error\<close> member is returned like any other. Callers take the envelope
  apart themselves, as \<^verbatim>\<open>adjust_brightness\<close> does.
\<close>

theorem jsonrpc_call_returns_reply:
  assumes "\<not> batch c" "\<not> sock_closed (sock c)" "inbox (sock c) = Data t # evs"
    "length t \<le> 8192" "utf8_ok (map of_char t)" "json_loads t = Some v"
  shows "fst (jsonrpc_call c method params) = Inr v"
  using assms by (simp add: jsonrpc_call_def make_payload_def execute_payload_parsed)

text \<open>C3 on a reply that carries an error: the call returns the envelope.\<close>

theorem jsonrpc_call_returns_reply_witness:
  "fst (jsonrpc_call (connect [Data reply_error_boom]) ''get_light_state'' (JArr [JStr ''*''])) =
     Inr (JObj [(''id'', JStr id0),
                (''error'', JObj [(''code'', JInt (- 1)), (''message'', JStr ''boom'')])])"
  using jsonrpc_call_returns_reply [of "connect [Data reply_error_boom]" reply_error_boom "[]"]
  by (simp add: connect_simps loads_error_boom utf8_error_boom length_replies)

text \<open>
  C3 as the specification words it fails on its own example: the reply with the result 42
  makes the call return the envelope, which is not 42, and the reply with an error makes
  the call return normally.
\<close>

theorem jsonrpc_call_unwrap_counterexample:
  "fst (jsonrpc_call (connect [Data reply_result_42]) ''get_light_state'' (JArr [JStr ''*''])) =
     Inr (JObj [(''id'', JStr id0), (''result'', JInt 42)]) \<and>
   fst (jsonrpc_call (connect [Data reply_result_42]) ''get_light_state'' (JArr [JStr ''*''])) \<noteq>
     Inr (JInt 42) \<and>
   isl (fst (jsonrpc_call (connect [Data reply_error_boom]) ''get_light_state''
     (JArr [JStr ''*'']))) = False"
  by (simp add: jsonrpc_call_def make_payload_def connect_simps execute_payload_parsed
      loads_result_42 utf8_result_42 loads_error_boom utf8_error_boom length_replies)

subsection \<open>Reading the reply\<close>

text \<open>
  Claim C4 on a reply the peer writes in three pieces. \<^verbatim>\<open>_execute_payload\<close> calls
  \<^verbatim>\<open>recv\<close> once: it returns the first piece as raw text and leaves the other two unread,
  although the three pieces together are a JSON object.
\<close>

theorem execute_payload_single_read:
  "fst (execute_payload (connect [Data piece1, Data piece2, Data piece3])
          (envelope ''get_light_state'' (JArr [JStr ''*'']) id0)) = Inr (JStr piece1) \<and>
   inbox (sock (snd (execute_payload (connect [Data piece1, Data piece2, Data piece3])
          (envelope ''get_light_state'' (JArr [JStr ''*'']) id0)))) = [Data piece2, Data piece3] \<and>
   json_loads (piece1 @ piece2 @ piece3) =
     Some (JObj [(''id'', JStr id0), (''result'', JInt 42)])"
  by (simp add: connect_simps execute_payload_raw loads_piece1 utf8_piece1 length_replies
      loads_pieces)

text \<open>
  Claim C5, as the code has it. When the text received does not parse, the exchange does
  not fail: it prints the text after \<^verbatim>\<open>received invalid json: \<close> and returns the text
  itself, a \<^verbatim>\<open>str\<close>, where a decoded reply would be.
\<close>

theorem execute_payload_returns_raw_text:
  assumes "sock_send (sock c) payload = Inr s1" "sock_recv s1 8192 = (Inr bs, s2)"
    "decode_utf8 bs = Inr text" "json_loads text = None"
  shows "execute_payload c payload =
     (Inr (JStr text),
      c\<lparr>sock := s2, stdout := stdout c @ [''received invalid json: '' @ text]\<rparr>)"
  using assms by (simp add: execute_payload_def)

text \<open>C5 on a reply that is no JSON text.\<close>

theorem execute_payload_returns_raw_text_witness:
  "execute_payload (connect [Data reply_not_json]) JNull =
     (Inr (JStr reply_not_json),
      (connect [Data reply_not_json])
        \<lparr>sock := \<lparr>sock_closed = False, sent = [JNull], inbox = []\<rparr>,
         stdout := [''received invalid json: '' @ reply_not_json]\<rparr>)"
  using execute_payload_returns_raw_text [of "connect [Data reply_not_json]" JNull
      "\<lparr>sock_closed = False, sent = [JNull], inbox = [Data reply_not_json]\<rparr>"
      reply_not_json "\<lparr>sock_closed = False, sent = [JNull], inbox = []\<rparr>" reply_not_json]
  by (simp add: connect_simps sock_send_def sock_recv_def decode_utf8_def
      loads_not_json utf8_not_json length_replies)

text \<open>
  C5 as the specification words it fails on that reply: the exchange returns normally,
  and what it returns is the unparsed text.
\<close>

theorem execute_payload_malformed_counterexample:
  "fst (execute_payload (connect [Data reply_not_json])
     (envelope ''get_light_state'' (JArr [JStr ''*'']) id0)) = Inr (JStr reply_not_json) \<and>
   json_loads reply_not_json = None"
  by (simp add: connect_simps execute_payload_raw loads_not_json utf8_not_json length_replies)

subsection \<open>Opening a batch\<close>

text \<open>
  Claim C6, as the code has it. Opening a batch on a session that is already batching
  does not fail: it yields a new empty list and leaves the session as it is, still
  batching, with the same requests pending.
\<close>

theorem batch_enter_when_batching:
  "batch c \<Longrightarrow> batch_enter c = (Inr [], c)"
  by (simp add: batch_enter_def)

text \<open>C6 on the open batch of one request.\<close>

theorem batch_enter_when_batching_witness:
  "batch (batch_of_one []) \<and> batch_enter (batch_of_one []) = (Inr [], batch_of_one [])"
  using batch_enter_when_batching [of "batch_of_one []"]
  by (simp add: batch_of_one_simps)

text \<open>
  C6 as the specification words it fails on that session: the second \<^verbatim>\<open>batch\<close> returns
  normally and the request already pending stays pending.
\<close>

theorem batch_enter_nested_counterexample:
  "batch (batch_of_one []) \<and>
   fst (batch_enter (batch_of_one [])) = Inr [] \<and>
   pipeline (snd (batch_enter (batch_of_one []))) = pipeline (batch_of_one []) \<and>
   pipeline (batch_of_one []) \<noteq> []"
  by (simp add: batch_enter_def batch_of_one_simps)

subsection \<open>The params of the wrappers\<close>

lemma execute_payload_sent:
  "\<not> sock_closed (sock c) \<Longrightarrow> sent (sock (snd (execute_payload c p))) = sent (sock c) @ [p]"
  by (auto simp: execute_payload_def sock_send_def sock_recv_def decode_utf8_def
      split: sum.splits prod.splits list.splits event.splits option.splits if_splits)

lemma jsonrpc_call_placed:
  "batch c \<or> \<not> sock_closed (sock c) \<Longrightarrow>
   placed c (snd (jsonrpc_call c method params)) method params"
  by (auto simp: placed_def jsonrpc_call_def make_payload_def envelope_def
      execute_payload_sent execute_payload_frame)

text \<open>
  Claim C9. On a session that can send (batching, or its socket open), each wrapper
  places exactly one request, with its own method name and with the params of the method
  catalogue: the positional lists for \<^verbatim>\<open>set_light_from_hsbk\<close>, \<^verbatim>\<open>set_waveform\<close>,
  \<^verbatim>\<open>get_light_state\<close>, \<^verbatim>\<open>tag\<close>, \<^verbatim>\<open>untag\<close> and \<^verbatim>\<open>set_label\<close>, the mapping with the
  one key \<^verbatim>\<open>target\<close> for \<^verbatim>\<open>power_on\<close>, \<^verbatim>\<open>power_off\<close> and \<^verbatim>\<open>power_toggle\<close>. The five
  presets place a \<^verbatim>\<open>set_waveform\<close> request with the catalogue's list: their waveform
  name second, period before cycles, then the skew ratio (0.5 where the preset fixes it
  or the caller leaves it out) and the transient flag (true when left out).
\<close>

theorem wrappers_params:
  assumes "batch c \<or> \<not> sock_closed (sock c)"
  shows
    "placed c (snd (set_light_from_hsbk c target h s b k t))
       ''set_light_from_hsbk'' (JArr [target, h, s, b, k, t]) \<and>
     placed c (snd (set_waveform c target waveform h s b k period cycles skew_ratio transient))
       ''set_waveform''
       (JArr [target, waveform, h, s, b, k, period, cycles, skew_ratio, transient]) \<and>
     placed c (snd (power_on c target)) ''power_on'' (JObj [(''target'', target)]) \<and>
     placed c (snd (power_off c target)) ''power_off'' (JObj [(''target'', target)]) \<and>
     placed c (snd (power_toggle c target)) ''power_toggle'' (JObj [(''target'', target)]) \<and>
     placed c (snd (get_light_state c target)) ''get_light_state'' (JArr [target]) \<and>
     placed c (snd (tag c target tg)) ''tag'' (JArr [target, tg]) \<and>
     placed c (snd (untag c target tg)) ''untag'' (JArr [target, tg]) \<and>
     placed c (snd (set_label c target label)) ''set_label'' (JArr [target, label]) \<and>
     placed c (snd (saw c target h s b k period cycles opt_transient)) ''set_waveform''
       (JArr [target, JStr ''SAW'', h, s, b, k, period, cycles, JFloat (Fin 0.5),
              default_arg (JBool True) opt_transient]) \<and>
     placed c (snd (sine c target h s b k period cycles opt_ratio opt_transient))
       ''set_waveform''
       (JArr [target, JStr ''SINE'', h, s, b, k, period, cycles,
              default_arg (JFloat (Fin 0.5)) opt_ratio,
              default_arg (JBool True) opt_transient]) \<and>
     placed c (snd (half_sine c target h s b k period cycles opt_transient)) ''set_waveform''
       (JArr [target, JStr ''HALF_SINE'', h, s, b, k, period, cycles, JFloat (Fin 0.5),
              default_arg (JBool True) opt_transient]) \<and>
     placed c (snd (triangle c target h s b k period cycles opt_ratio opt_transient))
       ''set_waveform''
       (JArr [target, JStr ''TRIANGLE'', h, s, b, k, period, cycles,
              default_arg (JFloat (Fin 0.5)) opt_ratio,
              default_arg (JBool True) opt_transient]) \<and>
     placed c (snd (square c target h s b k period cycles opt_ratio opt_transient))
       ''set_waveform''
       (JArr [target, JStr ''SQUARE'', h, s, b, k, period, cycles,
              default_arg (JFloat (Fin 0.5)) opt_ratio,
              default_arg (JBool True) opt_transient])"
  unfolding set_light_from_hsbk_def saw_def sine_def half_sine_def triangle_def square_def
    set_waveform_def power_on_def power_off_def
    power_toggle_def get_light_state_def tag_def untag_def set_label_def
  using assms by (simp add: jsonrpc_call_placed)

text \<open>
  C9 on a fresh connection: what four of the wrappers leave in the send log, the last a
  preset called with its defaults.
\<close>

theorem wrappers_params_witness:
  "(batch (connect []) \<or> \<not> sock_closed (sock (connect []))) \<and>
   sent (sock (snd (set_light_from_hsbk (connect []) (JStr ''bulb1'') (JInt 0) (JInt 0)
      (JFloat (Fin 1)) (JInt 3500) (JInt 500)))) =
     [envelope ''set_light_from_hsbk''
        (JArr [JStr ''bulb1'', JInt 0, JInt 0, JFloat (Fin 1), JInt 3500, JInt 500]) id0] \<and>
   sent (sock (snd (power_on (connect []) (JStr ''*'')))) =
     [envelope ''power_on'' (JObj [(''target'', JStr ''*'')]) id0] \<and>
   sent (sock (snd (tag (connect []) (JStr ''bulb1'') (JStr ''kitchen'')))) =
     [envelope ''tag'' (JArr [JStr ''bulb1'', JStr ''kitchen'']) id0] \<and>
   sent (sock (snd (square (connect []) (JStr ''bulb1'') (JInt 0) (JInt 0) (JFloat (Fin 1))
      (JInt 3500) (JInt 1000) (JInt 10) None None))) =
     [envelope ''set_waveform''
        (JArr [JStr ''bulb1'', JStr ''SQUARE'', JInt 0, JInt 0, JFloat (Fin 1), JInt 3500,
               JInt 1000, JInt 10, JFloat (Fin 0.5), JBool True]) id0]"
  using wrappers_params [of "connect []" "JStr ''bulb1''" "JInt 0" "JInt 0" "JFloat (Fin 1)"
      "JInt 3500" "JInt 500" "JStr ''SAW''" "JInt 1000" "JInt 10" "JFloat (Fin 0.5)"
      "JBool True" "JStr ''kitchen''" "JStr ''lamp''" None None]
    wrappers_params [of "connect []" "JStr ''*''"]
  by (simp add: placed_def connect_simps uuid_str_0 default_arg_def)

subsection \<open>Request envelopes and their ids\<close>













lemma jsonrpc_call_frame:
  "uuids (snd (jsonrpc_call c method params)) = uuids c"
  "drawn (snd (jsonrpc_call c method params)) = Suc (drawn c)"
  "batch (snd (jsonrpc_call c method params)) = batch c"
  by (simp_all add: jsonrpc_call_def make_payload_def execute_payload_frame)











subsection \<open>\<^verbatim>\<open>adjust_brightness\<close> on a well-formed state\<close>

lemma loads_empty: "json_loads [] = None"
  by (simp add: json_loads_def)

lemma quiet_simps:
  "quiet 0 evs" "quiet (Suc n) (ev # evs) = (good_piece ev \<and> quiet n evs)"
  "quiet (Suc n) [] = False"
  by (auto simp: quiet_def)

lemma execute_payload_quiet:
  assumes "\<not> sock_closed (sock c)" "quiet (Suc n) (inbox (sock c))"
  shows "\<not> isl (fst (execute_payload c p))"
    and "quiet n (inbox (sock (snd (execute_payload c p))))"
    and "\<not> sock_closed (sock (snd (execute_payload c p)))"
proof -
  from assms(2) obtain ev evs where i: "inbox (sock c) = ev # evs"
    by (cases "inbox (sock c)") (simp_all add: quiet_simps)
  with assms(2) obtain t where ev: "ev = Data t" and t: "length t \<le> 8192" "utf8_ok (map of_char t)"
    and q: "quiet n evs"
    by (cases ev) (simp_all add: quiet_simps good_piece_def)
  show "\<not> isl (fst (execute_payload c p))"
    using assms(1) i ev t
    by (cases "json_loads t") (simp_all add: execute_payload_parsed execute_payload_raw)
  show "quiet n (inbox (sock (snd (execute_payload c p))))"
    using assms(1) i ev t q
    by (cases "json_loads t") (simp_all add: execute_payload_parsed execute_payload_raw)
  show "\<not> sock_closed (sock (snd (execute_payload c p)))"
    using assms(1) i ev t
    by (cases "json_loads t") (simp_all add: execute_payload_parsed execute_payload_raw)
qed

lemma jsonrpc_call_single:
  assumes "\<not> batch c" "\<not> sock_closed (sock c)" "quiet (Suc n) (inbox (sock c))"
  shows "\<not> isl (fst (jsonrpc_call c method params))"
    and "quiet n (inbox (sock (snd (jsonrpc_call c method params))))"
    and "\<not> sock_closed (sock (snd (jsonrpc_call c method params)))"
    and "sent (sock (snd (jsonrpc_call c method params))) =
           sent (sock c) @ [envelope method params (uuid_str (uuids c (drawn c)))]"
  using assms
  by (simp_all add: jsonrpc_call_def make_payload_def execute_payload_quiet execute_payload_sent
      envelope_def)

lemma request_of_envelope:
  "request_of (envelope method params ident) = (Inr (JStr method), Inr params)"
  by (simp add: request_of_def envelope_def py_getitem_def)

text \<open>The code's \<^verbatim>\<open>max(min(x, 1.0), 0.0)\<close> is the specification's clamp.\<close>

lemma float_lt_one_not_neg: "float_lt (Fin 1) f \<Longrightarrow> \<not> float_lt f (Fin 0)"
  by (cases f) simp_all

lemma clamp_max_min:
  "py_max (py_min x (PFloat (Fin 1))) (PFloat (Fin 0)) = clamp x (PFloat (Fin 0)) (PFloat (Fin 1))"
proof (cases "num_lt (PFloat (Fin 1)) x")
  case True
  then have "\<not> num_lt x (PFloat (Fin 0))"
    by (cases x) (auto simp: num_lt_def dest: float_lt_one_not_neg)
  with True show ?thesis
    by (simp add: py_max_def py_min_def clamp_def num_lt_def)
next
  case False
  then show ?thesis
    by (simp add: py_max_def py_min_def clamp_def)
qed

lemma adjust_bulb_device:
  assumes "device d = Some (label, h, s, x, k)" "num_add x delta = Inr y"
  shows "adjust_bulb c d delta =
     set_light_from_hsbk c label h s
       (num_json (clamp y (PFloat (Fin 0)) (PFloat (Fin 1)))) k (JInt 500)"
proof -
  from assms(1) obtain kvs b where d: "d = JObj kvs"
    and hs: "map_of kvs ''hsbk'' = Some (JArr [h, s, b, k])"
    and lb: "map_of kvs ''label'' = Some label"
    and b: "as_num b = Some x"
    by (auto simp: device_def split: json.splits option.splits list.splits)
  show ?thesis
    by (simp add: adjust_bulb_def d py_getitem_def hs lb unpack4_def py_iter_def py_add_def
        b assms(2) clamp_max_min)
qed

lemma adjust_loop_writes:
  assumes "\<not> batch c" "\<not> sock_closed (sock c)" "quiet (length bulbs) (inbox (sock c))"
    "map device bulbs = map Some devs" "map (expected_write delta) devs = map Some writes"
  shows "fst (adjust_loop c bulbs delta) = Inr JNull \<and>
     (\<exists>ws. sent (sock (snd (adjust_loop c bulbs delta))) = sent (sock c) @ ws \<and>
           map request_of ws = writes)"
  using assms
proof (induction bulbs arbitrary: c devs writes)
  case Nil
  then show ?case by simp
next
  case (Cons d bulbs)
  from Cons.prems(4) obtain dev devs' where devs: "devs = dev # devs'"
    and dev: "device d = Some dev" and rest: "map device bulbs = map Some devs'"
    by (cases devs) auto
  from Cons.prems(5) devs obtain w writes' where writes: "writes = w # writes'"
    and w: "expected_write delta dev = Some w"
    and rest': "map (expected_write delta) devs' = map Some writes'"
    by (cases writes) auto
  obtain label h s x k where tup: "dev = (label, h, s, x, k)"
    by (cases dev)
  from w tup obtain y where y: "num_add x delta = Inr y"
    by (cases "num_add x delta") (simp_all add: expected_write_def)
  let ?p = "JArr [label, h, s, num_json (clamp y (PFloat (Fin 0)) (PFloat (Fin 1))), k, JInt 500]"
  let ?call = "jsonrpc_call c ''set_light_from_hsbk'' ?p"
  have ab: "adjust_bulb c d delta = ?call"
    using dev tup y by (simp add: adjust_bulb_device set_light_from_hsbk_def)
  obtain r c' where call: "?call = (r, c')" by (cases ?call)
  have q: "quiet (Suc (length bulbs)) (inbox (sock c))"
    using Cons.prems(3) by simp
  have ok: "\<not> isl r" and q': "quiet (length bulbs) (inbox (sock c'))"
    and cl': "\<not> sock_closed (sock c')"
    and s': "sent (sock c') =
      sent (sock c) @ [envelope ''set_light_from_hsbk'' ?p (uuid_str (uuids c (drawn c)))]"
    using jsonrpc_call_single [OF Cons.prems(1,2) q, of "''set_light_from_hsbk''" ?p] call
    by simp_all
  have b': "\<not> batch c'"
    using jsonrpc_call_frame(3) [of c "''set_light_from_hsbk''" ?p] call Cons.prems(1)
    by simp
  from ok obtain v where r: "r = Inr v" by (cases r) simp_all
  have step: "adjust_loop c (d # bulbs) delta = adjust_loop c' bulbs delta"
    by (simp add: ab call r)
  from Cons.IH [OF b' cl' q' rest rest'] obtain ws where
    res: "fst (adjust_loop c' bulbs delta) = Inr JNull"
    and ws: "sent (sock (snd (adjust_loop c' bulbs delta))) = sent (sock c') @ ws"
    "map request_of ws = writes'"
    by blast
  let ?e = "envelope ''set_light_from_hsbk'' ?p (uuid_str (uuids c (drawn c)))"
  have "sent (sock (snd (adjust_loop c (d # bulbs) delta))) = sent (sock c) @ (?e # ws)"
    by (simp only: step ws s' append_assoc append_Cons append_Nil)
  moreover have "map request_of (?e # ws) = writes"
    using w y by (simp add: writes tup ws request_of_envelope expected_write_def)
  ultimately show ?case
    using res step by (simp only:) blast
qed

lemma execute_payload_open:
  assumes "execute_payload c p = (Inr v, c')" "v \<noteq> JStr []"
  shows "\<not> sock_closed (sock c')"
proof (cases "sock_closed (sock c)")
  case True
  then show ?thesis using assms(1) by (simp add: execute_payload_def sock_send_def)
next
  case False
  show ?thesis
  proof (cases "inbox (sock c)")
    case Nil
    then show ?thesis using assms False
      by (simp add: execute_payload_def sock_send_def sock_recv_def decode_utf8_def loads_empty)
  next
    case (Cons ev evs)
    then show ?thesis using assms(1) False
      by (cases ev)
        (auto simp: execute_payload_def sock_send_def sock_recv_def decode_utf8_def
          split: if_splits option.splits)
  qed
qed

lemma get_light_state_single:
  assumes "\<not> batch c" "get_light_state c target = (Inr reply, c1)" "reply \<noteq> JStr []"
  shows "\<not> batch c1" "\<not> sock_closed (sock c1)"
proof -
  show "\<not> batch c1"
    using jsonrpc_call_frame(3) [of c "''get_light_state''" "JArr [target]"] assms
    by (simp add: get_light_state_def)
  show "\<not> sock_closed (sock c1)"
    using assms execute_payload_open [of _ _ reply c1]
    by (simp add: get_light_state_def jsonrpc_call_def make_payload_def)
qed

text \<open>
  Claim C7. In single mode, when \<^verbatim>\<open>get_light_state\<close> returns a reply whose \<^verbatim>\<open>result\<close>
  is a list of devices, Python can add the adjustment to the brightness of each, and the
  peer answers every write, \<^verbatim>\<open>adjust_brightness\<close> returns normally, and what it sends
  after the state request is exactly one \<^verbatim>\<open>set_light_from_hsbk\<close> per device, in the
  order of the devices: the device's label, its hue, saturation and kelvin as they are,
  the brightness \<open>clamp (b + delta) 0.0 1.0\<close> of its brightness \<open>b\<close> in Python's
  arithmetic, and the duration 500.
\<close>

theorem adjust_brightness_writes:
  assumes "\<not> batch c"
    and "get_light_state c target = (Inr reply, c1)"
    and "py_getitem reply ''result'' = Inr (JArr bulbs)"
    and "map device bulbs = map Some devs"
    and "map (expected_write delta) devs = map Some writes"
    and "quiet (length bulbs) (inbox (sock c1))"
  shows "fst (adjust_brightness c target delta) = Inr JNull \<and>
     take (length (sent (sock c1))) (sent (sock (snd (adjust_brightness c target delta)))) =
       sent (sock c1) \<and>
     map request_of
       (drop (length (sent (sock c1))) (sent (sock (snd (adjust_brightness c target delta))))) =
       writes"
proof -
  have ab: "adjust_brightness c target delta = adjust_loop c1 bulbs delta"
    using assms(2,3) by (simp add: adjust_brightness_def py_iter_def)
  have "reply \<noteq> JStr []"
    using assms(3) by (auto simp: py_getitem_def)
  from adjust_loop_writes [OF get_light_state_single [OF assms(1,2) this] assms(6,4,5)]
  obtain ws where "fst (adjust_loop c1 bulbs delta) = Inr JNull"
    "sent (sock (snd (adjust_loop c1 bulbs delta))) = sent (sock c1) @ ws"
    "map request_of ws = writes"
    by blast
  then show ?thesis by (simp add: ab)
qed

lemma bits_0: "bits 0 = 0"
  by (subst bits.simps) simp

lemma bits_pos: "0 < n \<Longrightarrow> bits n = Suc (bits (n div 2))"
  by (subst bits.simps) simp

lemmas float_eval = round_double_def round_pos_def ilog2_def pow2_def round_half_even_def
  bits_0 bits_pos Let_def

text \<open>The floats 0.9 and 0.2 and their sum, 1.1 to the float's precision.\<close>

lemma float_0_9: "round_double (9 / 10) = Fin (8106479329266893 / 9007199254740992)"
  by (simp add: float_eval)

lemma float_0_2: "round_double (1 / 5) = Fin (3602879701896397 / 18014398509481984)"
  by (simp add: float_eval)

lemma float_0_9_plus_0_2:
  "float_add (round_double (9 / 10)) (round_double (1 / 5)) =
     Fin (2476979795053773 / 2251799813685248)"
  unfolding float_0_9 float_0_2 by (simp add: float_eval)

text \<open>Python's \<^verbatim>\<open>0.1 + 0.2\<close> is \<^verbatim>\<open>0.30000000000000004\<close>.\<close>

lemma float_0_1_plus_0_2:
  "float_add (round_double (1 / 10)) (round_double (1 / 5)) =
     Fin (1351079888211149 / 4503599627370496)"
  unfolding float_0_2 by (simp add: float_eval)

lemmas lex_defs = is_ws_def is_digit_def is_alpha_def is_num_char_def digits_val_def
  exponent_def number_def word_token_def unescape_def punct_def emit_def Let_def

lemma lex_state_bulb1:
  "lex Idle reply_state_bulb1 =
     Some [TLBrace, TStr ''id'', TColon, TStr id0, TComma, TStr ''result'', TColon, TLBrack,
           TLBrace, TStr ''hsbk'', TColon, TLBrack, TInt 0, TComma, TInt 0, TComma,
           TFloat (round_double 0.9), TComma, TInt 3500, TRBrack, TComma, TStr ''label'',
           TColon, TStr ''bulb1'', TRBrace, TRBrack, TRBrace]"
  unfolding reply_state_bulb1_def id0_def by (simp add: lex_defs)

lemma loads_state_bulb1:
  "json_loads reply_state_bulb1 =
     Some (JObj [(''id'', JStr id0),
                 (''result'',
                  JArr [JObj [(''hsbk'', JArr [JInt 0, JInt 0, JFloat (round_double 0.9),
                                               JInt 3500]),
                              (''label'', JStr ''bulb1'')]])])"
  by (simp add: json_loads_def lex_state_bulb1 start_def)

lemma utf8_state_bulb1: "utf8_ok (map of_char reply_state_bulb1)"
  unfolding reply_state_bulb1_def by code_simp

lemma utf8_true_1: "utf8_ok (map of_char reply_true_1)"
  unfolding reply_true_1_def by code_simp

lemma length_state_replies:
  "length reply_state_bulb1 \<le> 8192" "length reply_true_1 \<le> 8192"
  "reply_true_1 \<noteq> []"
  by (simp_all add: reply_state_bulb1_def reply_true_1_def)

lemma get_light_state_bulb1:
  "get_light_state (connect [Data reply_state_bulb1, Data reply_true_1]) (JStr ''bulb1'') =
     (Inr (JObj [(''id'', JStr id0),
                 (''result'',
                  JArr [JObj [(''hsbk'', JArr [JInt 0, JInt 0, JFloat (round_double 0.9),
                                               JInt 3500]),
                              (''label'', JStr ''bulb1'')]])]),
      (connect [Data reply_state_bulb1, Data reply_true_1])
        \<lparr>drawn := 1,
         sock := \<lparr>sock_closed = False,
                  sent = [envelope ''get_light_state'' (JArr [JStr ''bulb1'']) id0],
                  inbox = [Data reply_true_1]\<rparr>\<rparr>)"
  by (simp add: get_light_state_def jsonrpc_call_def make_payload_def connect_simps
      execute_payload_parsed loads_state_bulb1 utf8_state_bulb1 length_state_replies
      envelope_def uuid_str_0)

lemma expected_write_bulb1:
  "expected_write (float_lit (1 / 5))
     (JStr ''bulb1'', JInt 0, JInt 0, PFloat (round_double (9 / 10)), JInt 3500) =
     Some (Inr (JStr ''set_light_from_hsbk''),
           Inr (JArr [JStr ''bulb1'', JInt 0, JInt 0, JFloat (Fin 1), JInt 3500, JInt 500]))"
  by (simp add: expected_write_def float_lit_def num_add_def float_0_9_plus_0_2 clamp_def
      num_lt_def num_json_def)

text \<open>
  C7 on the specification's example: \<^verbatim>\<open>bulb1\<close> at brightness 0.9 adjusted by 0.2 gets
  \<^verbatim>\<open>set_light_from_hsbk("bulb1", 0, 0, 1.0, 3500, 500)\<close>.
\<close>

theorem adjust_brightness_writes_witness:
  "fst (adjust_brightness (connect [Data reply_state_bulb1, Data reply_true_1])
          (JStr ''bulb1'') (float_lit 0.2)) = Inr JNull \<and>
   map request_of (drop 1 (sent (sock (snd
     (adjust_brightness (connect [Data reply_state_bulb1, Data reply_true_1])
        (JStr ''bulb1'') (float_lit 0.2)))))) =
     [(Inr (JStr ''set_light_from_hsbk''),
       Inr (JArr [JStr ''bulb1'', JInt 0, JInt 0, JFloat (Fin 1), JInt 3500, JInt 500]))]"
  using adjust_brightness_writes [OF _ get_light_state_bulb1,
      of _ "[(JStr ''bulb1'', JInt 0, JInt 0, PFloat (round_double 0.9), JInt 3500)]"
      "float_lit 0.2"
      "[(Inr (JStr ''set_light_from_hsbk''),
         Inr (JArr [JStr ''bulb1'', JInt 0, JInt 0, JFloat (Fin 1), JInt 3500, JInt 500]))]"]
  by (simp add: connect_simps py_getitem_def device_def as_num_def quiet_def good_piece_def
      utf8_true_1 length_state_replies expected_write_bulb1)

subsection \<open>\<^verbatim>\<open>adjust_brightness\<close> on any other reply\<close>

lemma py_errors:
  "py_getitem v key = Inl e \<Longrightarrow> e \<noteq> OSError \<and> e \<noteq> UnicodeDecodeError"
  "py_iter v = Inl e \<Longrightarrow> e \<noteq> OSError \<and> e \<noteq> UnicodeDecodeError"
  "unpack4 v = Inl e \<Longrightarrow> e \<noteq> OSError \<and> e \<noteq> UnicodeDecodeError"
  "py_add v a = Inl e \<Longrightarrow> e \<noteq> OSError \<and> e \<noteq> UnicodeDecodeError"
  by (auto simp: py_getitem_def py_iter_def unpack4_def py_add_def num_add_def float_of_int_def
      split: json.splits option.splits sum.splits list.splits pynum.splits float.splits)

lemma adjust_bulb_unshaped:
  assumes "\<not> device_shape d"
  shows "\<exists>e. adjust_bulb c d delta = (Inl e, c) \<and> e \<noteq> OSError \<and> e \<noteq> UnicodeDecodeError"
proof (cases "py_getitem d ''hsbk''")
  case (Inl e)
  then show ?thesis using py_errors(1) [OF Inl] by (simp add: adjust_bulb_def)
next
  case (Inr v)
  show ?thesis
  proof (cases "unpack4 v")
    case (Inl e)
    then show ?thesis using py_errors(3) [OF Inl] Inr by (simp add: adjust_bulb_def)
  next
    case u: (Inr q)
    obtain h s b k where q: "q = (h, s, b, k)" by (cases q)
    from assms Inr u obtain e where lb: "py_getitem d ''label'' = Inl e"
      by (cases "py_getitem d ''label''") (simp_all add: device_shape_def)
    show ?thesis
    proof (cases "py_add b delta")
      case (Inl e')
      then show ?thesis using py_errors(4) [OF Inl] Inr u q by (simp add: adjust_bulb_def)
    next
      case (Inr x)
      then show ?thesis using py_errors(1) [OF lb] lb \<open>py_getitem d ''hsbk'' = Inr v\<close> u q
        by (simp add: adjust_bulb_def)
    qed
  qed
qed

lemma jsonrpc_call_sent_le:
  "\<exists>ws. sent (sock (snd (jsonrpc_call c method params))) = sent (sock c) @ ws \<and> length ws \<le> 1"
proof (cases "batch c \<or> sock_closed (sock c)")
  case True
  then show ?thesis
    by (auto simp: jsonrpc_call_def make_payload_def execute_payload_def sock_send_def)
next
  case False
  then show ?thesis
    by (simp add: jsonrpc_call_def make_payload_def execute_payload_sent)
qed

lemma adjust_bulb_sent_le:
  "\<exists>ws. sent (sock (snd (adjust_bulb c d delta))) = sent (sock c) @ ws \<and> length ws \<le> 1"
  using jsonrpc_call_sent_le
  by (auto simp: adjust_bulb_def set_light_from_hsbk_def split: sum.splits prod.splits)

lemma adjust_loop_unshaped:
  assumes "\<not> list_all device_shape ds"
  shows "isl (fst (adjust_loop c ds delta)) \<and>
     (\<exists>ws. sent (sock (snd (adjust_loop c ds delta))) = sent (sock c) @ ws \<and>
           length ws \<le> length (takeWhile device_shape ds))"
  using assms
proof (induction ds arbitrary: c)
  case Nil
  then show ?case by simp
next
  case (Cons d ds)
  show ?case
  proof (cases "device_shape d")
    case False
    from adjust_bulb_unshaped [OF False, of c delta] obtain e
      where "adjust_bulb c d delta = (Inl e, c)" by blast
    then show ?thesis using False by simp
  next
    case True
    obtain r c' where ab: "adjust_bulb c d delta = (r, c')" by (cases "adjust_bulb c d delta")
    from adjust_bulb_sent_le [of c d delta] ab obtain w1
      where w1: "sent (sock c') = sent (sock c) @ w1" "length w1 \<le> 1" by auto
    show ?thesis
    proof (cases r)
      case (Inl e)
      then show ?thesis using ab w1 True by simp
    next
      case (Inr v)
      from True Cons.prems have "\<not> list_all device_shape ds" by simp
      from Cons.IH [OF this, of c'] obtain ws
        where f: "isl (fst (adjust_loop c' ds delta))"
          and ws: "sent (sock (snd (adjust_loop c' ds delta))) = sent (sock c') @ ws"
          "length ws \<le> length (takeWhile device_shape ds)"
        by blast
      have st: "adjust_loop c (d # ds) delta = adjust_loop c' ds delta"
        using ab Inr by simp
      have "sent (sock (snd (adjust_loop c (d # ds) delta))) = sent (sock c) @ (w1 @ ws)"
        by (simp only: st ws w1 append_assoc)
      moreover have "length (w1 @ ws) \<le> length (takeWhile device_shape (d # ds))"
        using w1(2) ws(2) True by simp
      ultimately show ?thesis using f st by (simp only:) blast
    qed
  qed
qed


lemma quiet_Suc:
  assumes "quiet (Suc n) evs"
  shows "quiet n evs"
proof -
  from assms have "n \<le> length evs" and "\<forall>ev \<in> set (take (Suc n) evs). good_piece ev"
    by (simp_all add: quiet_def list_all_iff)
  moreover have "set (take n evs) \<subseteq> set (take (Suc n) evs)"
    by (rule set_take_subset_set_take) simp
  ultimately show ?thesis
    by (auto simp: quiet_def list_all_iff)
qed

lemma adjust_bulb_single:
  assumes "\<not> batch c" "\<not> sock_closed (sock c)" "quiet (Suc n) (inbox (sock c))"
  shows "(\<forall>e. fst (adjust_bulb c d delta) = Inl e \<longrightarrow> e \<noteq> OSError \<and> e \<noteq> UnicodeDecodeError) \<and>
     \<not> batch (snd (adjust_bulb c d delta)) \<and>
     \<not> sock_closed (sock (snd (adjust_bulb c d delta))) \<and>
     quiet n (inbox (sock (snd (adjust_bulb c d delta))))"
proof -
  have call: "\<And>label h s b k.
      \<not> isl (fst (set_light_from_hsbk c label h s b k (JInt 500))) \<and>
      \<not> batch (snd (set_light_from_hsbk c label h s b k (JInt 500))) \<and>
      \<not> sock_closed (sock (snd (set_light_from_hsbk c label h s b k (JInt 500)))) \<and>
      quiet n (inbox (sock (snd (set_light_from_hsbk c label h s b k (JInt 500)))))"
    using assms
    by (simp add: set_light_from_hsbk_def jsonrpc_call_single jsonrpc_call_frame)
  have stay: "quiet n (inbox (sock c))"
    using assms(3) by (rule quiet_Suc)
  show ?thesis
  proof (cases "py_getitem d ''hsbk''")
    case (Inl e)
    then show ?thesis using py_errors(1) [OF Inl] assms stay by (simp add: adjust_bulb_def)
  next
    case hs: (Inr v)
    show ?thesis
    proof (cases "unpack4 v")
      case (Inl e)
      then show ?thesis using py_errors(3) [OF Inl] hs assms stay by (simp add: adjust_bulb_def)
    next
      case u: (Inr q)
      obtain h s b k where q: "q = (h, s, b, k)" by (cases q)
      show ?thesis
      proof (cases "py_add b delta")
        case (Inl e)
        then show ?thesis using py_errors(4) [OF Inl] hs u q assms stay
          by (simp add: adjust_bulb_def)
      next
        case ad: (Inr x)
        show ?thesis
        proof (cases "py_getitem d ''label''")
          case (Inl e)
          then show ?thesis using py_errors(1) [OF Inl] hs u q ad assms stay
            by (simp add: adjust_bulb_def)
        next
          case (Inr label)
          have "adjust_bulb c d delta =
              set_light_from_hsbk c label h s
                (num_json (py_max (py_min x (PFloat (Fin 1))) (PFloat (Fin 0)))) k (JInt 500)"
            using hs u q ad Inr by (simp add: adjust_bulb_def)
          then show ?thesis
            using call [of label h s
                "num_json (py_max (py_min x (PFloat (Fin 1))) (PFloat (Fin 0)))" k]
            by auto
        qed
      qed
    qed
  qed
qed

lemma adjust_loop_error_kind:
  assumes "\<not> batch c" "\<not> sock_closed (sock c)"
    "quiet (length (takeWhile device_shape ds)) (inbox (sock c))"
    "fst (adjust_loop c ds delta) = Inl e"
  shows "e \<noteq> OSError \<and> e \<noteq> UnicodeDecodeError"
  using assms
proof (induction ds arbitrary: c)
  case Nil
  then show ?case by simp
next
  case (Cons d ds)
  show ?case
  proof (cases "device_shape d")
    case False
    from adjust_bulb_unshaped [OF False, of c delta] obtain e'
      where "adjust_bulb c d delta = (Inl e', c)" "e' \<noteq> OSError \<and> e' \<noteq> UnicodeDecodeError"
      by blast
    then show ?thesis using Cons.prems(4) by simp
  next
    case True
    then have q: "quiet (Suc (length (takeWhile device_shape ds))) (inbox (sock c))"
      using Cons.prems(3) by simp
    obtain r c' where ab: "adjust_bulb c d delta = (r, c')" by (cases "adjust_bulb c d delta")
    from adjust_bulb_single [OF Cons.prems(1,2) q, of d delta] ab
    have k: "\<forall>e. r = Inl e \<longrightarrow> e \<noteq> OSError \<and> e \<noteq> UnicodeDecodeError"
      and inv: "\<not> batch c'" "\<not> sock_closed (sock c')"
        "quiet (length (takeWhile device_shape ds)) (inbox (sock c'))"
      by simp_all
    show ?thesis
    proof (cases r)
      case (Inl e')
      then show ?thesis using ab Cons.prems(4) k by simp
    next
      case (Inr v)
      then have "fst (adjust_loop c' ds delta) = Inl e" using ab Cons.prems(4) by simp
      from Cons.IH [OF inv this] show ?thesis .
    qed
  qed
qed

lemma get_light_state_batch:
  "batch c \<Longrightarrow> fst (get_light_state c target) = Inr JNull"
  by (simp add: get_light_state_def jsonrpc_call_def make_payload_def)

text \<open>
  Claim C10, as the code has it. When the reply \<^verbatim>\<open>get_light_state\<close> returns is not a
  mapping with a \<^verbatim>\<open>result\<close> key holding an iterable of devices, each with a \<^verbatim>\<open>label\<close>
  key and an \<^verbatim>\<open>hsbk\<close> value of exactly four components, \<^verbatim>\<open>adjust_brightness\<close> fails
  with an exception. Where the peer answers the writes made, it is not an exception of
  the transport but one of Python's own, raised on the value at hand: \<^verbatim>\<open>KeyError\<close>,
  \<^verbatim>\<open>TypeError\<close>, \<^verbatim>\<open>ValueError\<close> or \<^verbatim>\<open>OverflowError\<close>. It has then written at most one
  request per well-shaped device that precedes the first ill-shaped one; so it has
  written nothing when the reply is no mapping (raw text, \<^verbatim>\<open>None\<close>), has no \<^verbatim>\<open>result\<close>
  key (an error envelope), holds no iterable there, or has an ill-shaped first device.
\<close>

theorem adjust_brightness_unshaped:
  assumes "get_light_state c target = (Inr reply, c1)" "\<not> reply_shape reply"
  shows "\<exists>e ws.
     fst (adjust_brightness c target delta) = Inl e \<and>
     sent (sock (snd (adjust_brightness c target delta))) = sent (sock c1) @ ws \<and>
     length ws \<le> length (shaped_prefix reply) \<and>
     (quiet (length (shaped_prefix reply)) (inbox (sock c1)) \<longrightarrow>
        e \<noteq> OSError \<and> e \<noteq> UnicodeDecodeError)"
proof (cases "devices_of reply")
  case None
  then obtain e where "adjust_brightness c target delta = (Inl e, c1)"
    and "e \<noteq> OSError \<and> e \<noteq> UnicodeDecodeError"
    using assms(1) py_errors(1,2)
    by (auto simp: adjust_brightness_def devices_of_def split: sum.splits)
  then show ?thesis using None by (simp add: shaped_prefix_def)
next
  case (Some ds)
  then have ab: "adjust_brightness c target delta = adjust_loop c1 ds delta"
    using assms(1) by (auto simp: adjust_brightness_def devices_of_def split: sum.splits)
  have bad: "\<not> list_all device_shape ds"
    using assms(2) Some by (simp add: reply_shape_def)
  from adjust_loop_unshaped [OF bad, of c1 delta] obtain ws
    where f: "isl (fst (adjust_loop c1 ds delta))"
      and ws: "sent (sock (snd (adjust_loop c1 ds delta))) = sent (sock c1) @ ws"
      "length ws \<le> length (takeWhile device_shape ds)"
    by blast
  from f obtain e where e: "fst (adjust_loop c1 ds delta) = Inl e"
    by (cases "fst (adjust_loop c1 ds delta)") simp_all
  have single: "\<not> batch c"
  proof
    assume "batch c"
    then have "reply = JNull" using get_light_state_batch [of c target] assms(1) by simp
    then show False using Some by (simp add: devices_of_def py_getitem_def)
  qed
  have raw: "reply \<noteq> JStr []"
    using Some by (auto simp: devices_of_def py_getitem_def)
  have "quiet (length (takeWhile device_shape ds)) (inbox (sock c1)) \<longrightarrow>
      e \<noteq> OSError \<and> e \<noteq> UnicodeDecodeError"
    using adjust_loop_error_kind [OF get_light_state_single [OF single assms(1) raw] _ e]
    by blast
  then show ?thesis using e ws Some by (auto simp: ab shaped_prefix_def)
qed

lemma get_light_state_error_boom:
  "get_light_state (connect [Data reply_error_boom]) (JStr ''*'') =
     (Inr (JObj [(''id'', JStr id0),
                 (''error'', JObj [(''code'', JInt (- 1)), (''message'', JStr ''boom'')])]),
      (connect [Data reply_error_boom])
        \<lparr>drawn := 1,
         sock := \<lparr>sock_closed = False,
                  sent = [envelope ''get_light_state'' (JArr [JStr ''*'']) id0],
                  inbox = []\<rparr>\<rparr>)"
  by (simp add: get_light_state_def jsonrpc_call_def make_payload_def connect_simps
      execute_payload_parsed loads_error_boom utf8_error_boom length_replies
      envelope_def uuid_str_0)

text \<open>C10 on an error envelope: \<^verbatim>\<open>KeyError\<close>, and only the state request was sent.\<close>

theorem adjust_brightness_unshaped_witness:
  "\<not> reply_shape (JObj [(''id'', JStr id0),
       (''error'', JObj [(''code'', JInt (- 1)), (''message'', JStr ''boom'')])]) \<and>
   fst (adjust_brightness (connect [Data reply_error_boom]) (JStr ''*'') (float_lit 0.2)) =
     Inl (KeyError ''result'') \<and>
   sent (sock (snd (adjust_brightness (connect [Data reply_error_boom]) (JStr ''*'')
     (float_lit 0.2)))) =
     [envelope ''get_light_state'' (JArr [JStr ''*'']) id0]"
proof -
  have h: "\<not> reply_shape (JObj [(''id'', JStr id0),
       (''error'', JObj [(''code'', JInt (- 1)), (''message'', JStr ''boom'')])])"
    by (simp add: reply_shape_def devices_of_def py_getitem_def)
  have p: "shaped_prefix (JObj [(''id'', JStr id0),
       (''error'', JObj [(''code'', JInt (- 1)), (''message'', JStr ''boom'')])]) = []"
    by (simp add: shaped_prefix_def devices_of_def py_getitem_def)
  have r: "fst (adjust_brightness (connect [Data reply_error_boom]) (JStr ''*'')
      (float_lit 0.2)) = Inl (KeyError ''result'')"
    by (simp add: adjust_brightness_def get_light_state_error_boom py_getitem_def)
  from adjust_brightness_unshaped [OF get_light_state_error_boom h, of "float_lit 0.2"] p
  have "sent (sock (snd (adjust_brightness (connect [Data reply_error_boom]) (JStr ''*'')
      (float_lit 0.2)))) = [envelope ''get_light_state'' (JArr [JStr ''*'']) id0]"
    by auto
  with h r show ?thesis by simp
qed

lemma lex_state_second_bad:
  "lex Idle reply_state_second_bad =
     Some [TLBrace, TStr ''id'', TColon, TStr id0, TComma, TStr ''result'', TColon, TLBrack,
           TLBrace, TStr ''hsbk'', TColon, TLBrack, TInt 0, TComma, TInt 0, TComma,
           TFloat (round_double 0.9), TComma, TInt 3500, TRBrack, TComma, TStr ''label'',
           TColon, TStr ''bulb1'', TRBrace, TComma, TLBrace, TStr ''label'', TColon,
           TStr ''bulb2'', TRBrace, TRBrack, TRBrace]"
  unfolding reply_state_second_bad_def id0_def by (simp add: lex_defs)

lemma loads_state_second_bad:
  "json_loads reply_state_second_bad =
     Some (JObj [(''id'', JStr id0),
                 (''result'',
                  JArr [JObj [(''hsbk'', JArr [JInt 0, JInt 0, JFloat (round_double 0.9),
                                               JInt 3500]),
                              (''label'', JStr ''bulb1'')],
                        JObj [(''label'', JStr ''bulb2'')]])])"
  by (simp add: json_loads_def lex_state_second_bad start_def)

lemma utf8_state_second_bad: "utf8_ok (map of_char reply_state_second_bad)"
  unfolding reply_state_second_bad_def by code_simp

lemma length_state_second_bad: "length reply_state_second_bad \<le> 8192"
  by (simp add: reply_state_second_bad_def)

lemma loads_true_1:
  "json_loads reply_true_1 = Some (JObj [(''id'', JStr id1), (''result'', JBool True)])"
  unfolding reply_true_1_def id1_def by code_simp

text \<open>
  C10 as the specification words it fails on a reply whose first device is well-shaped
  and whose second has no \<^verbatim>\<open>hsbk\<close>: the reply is not of the shape, the call fails with
  \<^verbatim>\<open>KeyError\<close>, and by then the write for the first device has been sent.
\<close>

theorem adjust_brightness_partial_write_counterexample:
  "\<not> reply_shape (JObj [(''id'', JStr id0),
       (''result'',
        JArr [JObj [(''hsbk'', JArr [JInt 0, JInt 0, JFloat (round_double 0.9), JInt 3500]),
                    (''label'', JStr ''bulb1'')],
              JObj [(''label'', JStr ''bulb2'')]])]) \<and>
   fst (get_light_state (connect [Data reply_state_second_bad, Data reply_true_1])
          (JStr ''*'')) =
     Inr (JObj [(''id'', JStr id0),
       (''result'',
        JArr [JObj [(''hsbk'', JArr [JInt 0, JInt 0, JFloat (round_double 0.9), JInt 3500]),
                    (''label'', JStr ''bulb1'')],
              JObj [(''label'', JStr ''bulb2'')]])]) \<and>
   fst (adjust_brightness (connect [Data reply_state_second_bad, Data reply_true_1])
          (JStr ''*'') (float_lit 0.2)) = Inl (KeyError ''hsbk'') \<and>
   sent (sock (snd (adjust_brightness (connect [Data reply_state_second_bad, Data reply_true_1])
          (JStr ''*'') (float_lit 0.2)))) =
     [envelope ''get_light_state'' (JArr [JStr ''*'']) id0,
      envelope ''set_light_from_hsbk''
        (JArr [JStr ''bulb1'', JInt 0, JInt 0, JFloat (Fin 1), JInt 3500, JInt 500]) id1]"
  by (simp add: reply_shape_def devices_of_def device_shape_def py_getitem_def py_iter_def
      unpack4_def py_add_def as_num_def num_add_def float_lit_def float_0_9_plus_0_2
      py_max_def py_min_def num_lt_def num_json_def
      adjust_brightness_def adjust_bulb_def set_light_from_hsbk_def
      get_light_state_def jsonrpc_call_def make_payload_def connect_simps
      execute_payload_parsed loads_state_second_bad utf8_state_second_bad
      length_state_second_bad loads_true_1 utf8_true_1 length_state_replies
      envelope_def uuid_str_0 uuid_str_1)

end
